theory Spec2Isabelle
  imports Main "HOL-Library.Word"
begin

section \<open>Data model of ehooks.h\<close>

text \<open>
  Pointers (\<^verbatim>\<open>void *\<close>, \<^verbatim>\<open>extent_hooks_t *\<close>, \<^verbatim>\<open>ehooks_t *\<close>) and \<^verbatim>\<open>size_t\<close> are 64-bit
  words, \<^verbatim>\<open>unsigned arena_ind\<close> is a 32-bit word. A \<^verbatim>\<open>tsd_t *\<close> is identified with the
  thread whose context it points to; a \<^verbatim>\<open>tsdn_t *\<close> is such a pointer or null (\<open>None\<close>).
\<close>

type_synonym vaddr = "64 word"
type_synonym size_t = "64 word"
type_synonym arena_ind_t = "32 word"
type_synonym tsd_ptr = nat
type_synonym tsdn_t = "nat option"

text \<open>
  A hook is foreign code. Its effect is a transformer of the state \<open>'w\<close> outside this
  layer (address space, operating system, the embedder's data); the first component of
  its result is the value it returns. A hook, and a default implementation likewise, is
  taken not to write the handles, the tables, the thread contexts or the log: what
  happens to those is what the code of the header does. The \<^verbatim>\<open>bool *zero\<close> and
  \<^verbatim>\<open>bool *commit\<close> in-out parameters of alloc are passed by value and returned next to
  the address.
\<close>

type_synonym 'w alloc_hook =
  "vaddr \<Rightarrow> vaddr \<Rightarrow> size_t \<Rightarrow> size_t \<Rightarrow> bool \<Rightarrow> bool \<Rightarrow> arena_ind_t \<Rightarrow> 'w \<Rightarrow> (vaddr \<times> bool \<times> bool) \<times> 'w"
type_synonym 'w dalloc_hook =
  "vaddr \<Rightarrow> vaddr \<Rightarrow> size_t \<Rightarrow> bool \<Rightarrow> arena_ind_t \<Rightarrow> 'w \<Rightarrow> bool \<times> 'w"
type_synonym 'w range_hook =
  "vaddr \<Rightarrow> vaddr \<Rightarrow> size_t \<Rightarrow> size_t \<Rightarrow> size_t \<Rightarrow> arena_ind_t \<Rightarrow> 'w \<Rightarrow> bool \<times> 'w"
type_synonym 'w split_hook =
  "vaddr \<Rightarrow> vaddr \<Rightarrow> size_t \<Rightarrow> size_t \<Rightarrow> size_t \<Rightarrow> bool \<Rightarrow> arena_ind_t \<Rightarrow> 'w \<Rightarrow> bool \<times> 'w"
type_synonym 'w merge_hook =
  "vaddr \<Rightarrow> vaddr \<Rightarrow> size_t \<Rightarrow> vaddr \<Rightarrow> size_t \<Rightarrow> bool \<Rightarrow> arena_ind_t \<Rightarrow> 'w \<Rightarrow> bool \<times> 'w"

text \<open>The table of function pointers \<^verbatim>\<open>extent_hooks_t\<close>; \<open>None\<close> is a NULL slot.\<close>

record 'w extent_hooks_t =
  alloc :: "'w alloc_hook option"
  dalloc :: "'w dalloc_hook option"
  destroy :: "'w dalloc_hook option"
  commit :: "'w range_hook option"
  decommit :: "'w range_hook option"
  purge_lazy :: "'w range_hook option"
  purge_forced :: "'w range_hook option"
  split :: "'w split_hook option"
  merge :: "'w merge_hook option"

text \<open>\<^verbatim>\<open>struct ehooks_s\<close>: one atomic pointer, logically an \<^verbatim>\<open>extent_hooks_t *\<close>.\<close>

record ehooks_t =
  ptr :: vaddr

text \<open>
  What the header takes from the rest of the build: the address of the constant
  \<^verbatim>\<open>ehooks_default_extent_hooks\<close>, the two configuration macros, and the default
  implementations it only declares.
\<close>

record 'w build =
  ehooks_default_extent_hooks :: vaddr
  pages_can_purge_lazy :: bool
  pages_can_purge_forced :: bool
  ehooks_default_alloc_impl ::
    "tsdn_t \<Rightarrow> vaddr \<Rightarrow> size_t \<Rightarrow> size_t \<Rightarrow> bool \<Rightarrow> bool \<Rightarrow> arena_ind_t \<Rightarrow> 'w \<Rightarrow> (vaddr \<times> bool \<times> bool) \<times> 'w"
  ehooks_default_dalloc_impl :: "vaddr \<Rightarrow> size_t \<Rightarrow> 'w \<Rightarrow> bool \<times> 'w"
  ehooks_default_destroy_impl :: "vaddr \<Rightarrow> size_t \<Rightarrow> 'w \<Rightarrow> unit \<times> 'w"
  ehooks_default_commit_impl :: "vaddr \<Rightarrow> size_t \<Rightarrow> size_t \<Rightarrow> 'w \<Rightarrow> bool \<times> 'w"
  ehooks_default_decommit_impl :: "vaddr \<Rightarrow> size_t \<Rightarrow> size_t \<Rightarrow> 'w \<Rightarrow> bool \<times> 'w"
  ehooks_default_purge_lazy_impl :: "vaddr \<Rightarrow> size_t \<Rightarrow> size_t \<Rightarrow> 'w \<Rightarrow> bool \<times> 'w"
  ehooks_default_purge_forced_impl :: "vaddr \<Rightarrow> size_t \<Rightarrow> size_t \<Rightarrow> 'w \<Rightarrow> bool \<times> 'w"
  ehooks_default_split_impl :: "'w \<Rightarrow> bool \<times> 'w"
  ehooks_default_merge_impl :: "vaddr \<Rightarrow> vaddr \<Rightarrow> 'w \<Rightarrow> bool \<times> 'w"

text \<open>
  Every call that leaves the header is logged: the raw reentrancy enter and exit with the
  thread context they act on, an indirect call through a slot of the table at a given
  address, and a direct call of a default implementation.
\<close>

datatype hook_slot =
  Alloc | Dalloc | Destroy | Commit | Decommit | Purge_lazy | Purge_forced | Split | Merge

datatype event =
  Reentrancy_enter tsd_ptr
  | Reentrancy_exit tsd_ptr
  | Custom_hook vaddr hook_slot
  | Default_impl hook_slot

text \<open>
  The machine state: the store of \<^verbatim>\<open>ehooks_t\<close> objects and of \<^verbatim>\<open>extent_hooks_t\<close>
  objects by address, the calling thread, per thread whether its context is established
  and its reentrancy level, the outside state, and the log.
\<close>

record 'w state =
  ehooks_heap :: "vaddr \<Rightarrow> ehooks_t option"
  hooks_heap :: "vaddr \<Rightarrow> 'w extent_hooks_t option"
  self_thread :: nat
  tsd_booted :: "nat \<Rightarrow> bool"
  reentrancy_level :: "nat \<Rightarrow> int"
  world :: 'w
  trace :: "event list"

text \<open>
  Undefined behaviour of the C code is an error value: reading through an
  \<^verbatim>\<open>ehooks_t *\<close> or \<^verbatim>\<open>extent_hooks_t *\<close> that points to no object, calling a NULL
  function pointer, and \<^verbatim>\<open>tsdn_tsd\<close> on a null \<^verbatim>\<open>tsdn_t *\<close>.
\<close>

datatype error = Bad_ehooks | Bad_extent_hooks | Null_call | Null_tsdn

type_synonym ('a, 'w) exec = "'w state \<Rightarrow> error + 'a \<times> 'w state"

definition return :: "'a \<Rightarrow> ('a, 'w) exec" where
  "return x s = Inr (x, s)"

definition bind :: "('a, 'w) exec \<Rightarrow> ('a \<Rightarrow> ('b, 'w) exec) \<Rightarrow> ('b, 'w) exec" where
  "bind m f s = (case m s of Inl e \<Rightarrow> Inl e | Inr (x, s') \<Rightarrow> f x s')"

text \<open>A direct call of a default implementation, and an indirect call through a slot.\<close>

definition call_default :: "hook_slot \<Rightarrow> ('w \<Rightarrow> 'r \<times> 'w) \<Rightarrow> ('r, 'w) exec" where
  "call_default sl f s =
     Inr (fst (f (world s)), s\<lparr>world := snd (f (world s)), trace := trace s @ [Default_impl sl]\<rparr>)"

definition call_hook :: "vaddr \<Rightarrow> hook_slot \<Rightarrow> ('w \<Rightarrow> 'r \<times> 'w) option \<Rightarrow> ('r, 'w) exec" where
  "call_hook p sl fo s =
     (case fo of
        None \<Rightarrow> Inl Null_call
      | Some f \<Rightarrow>
          Inr (fst (f (world s)), s\<lparr>world := snd (f (world s)), trace := trace s @ [Custom_hook p sl]\<rparr>))"

text \<open>Reading a slot of the table at \<open>p\<close>: \<^verbatim>\<open>extent_hooks->slot\<close>.\<close>

definition hooks_deref :: "vaddr \<Rightarrow> ('w extent_hooks_t, 'w) exec" where
  "hooks_deref p s = (case hooks_heap s p of None \<Rightarrow> Inl Bad_extent_hooks | Some t \<Rightarrow> Inr (t, s))"

section \<open>Thread context and the reentrancy guard\<close>

definition tsdn_null :: "tsdn_t \<Rightarrow> bool" where
  "tsdn_null tsdn = (tsdn = None)"

definition tsdn_tsd :: "tsdn_t \<Rightarrow> (tsd_ptr, 'w) exec" where
  "tsdn_tsd tsdn s = (case tsdn of None \<Rightarrow> Inl Null_tsdn | Some t \<Rightarrow> Inr (t, s))"

text \<open>
  Modelled from the spec: \<^verbatim>\<open>tsd_fetch\<close> is only called in this header. The spec has it
  fetch or establish the context of the calling thread.
\<close>

definition tsd_fetch :: "(tsd_ptr, 'w) exec" where
  "tsd_fetch s = Inr (self_thread s, s\<lparr>tsd_booted := (tsd_booted s)(self_thread s := True)\<rparr>)"

text \<open>
  Modelled from the spec: \<^verbatim>\<open>tsd_pre_reentrancy_raw\<close> and \<^verbatim>\<open>tsd_post_reentrancy_raw\<close>
  are only called in this header. The spec has the per-thread counter incremented on
  entry and decremented on exit.
\<close>

definition tsd_pre_reentrancy_raw :: "tsd_ptr \<Rightarrow> (unit, 'w) exec" where
  "tsd_pre_reentrancy_raw t s =
     Inr ((), s\<lparr>reentrancy_level := (reentrancy_level s)(t := reentrancy_level s t + 1),
               trace := trace s @ [Reentrancy_enter t]\<rparr>)"

definition tsd_post_reentrancy_raw :: "tsd_ptr \<Rightarrow> (unit, 'w) exec" where
  "tsd_post_reentrancy_raw t s =
     Inr ((), s\<lparr>reentrancy_level := (reentrancy_level s)(t := reentrancy_level s t - 1),
               trace := trace s @ [Reentrancy_exit t]\<rparr>)"

definition ehooks_pre_reentrancy :: "tsdn_t \<Rightarrow> (unit, 'w) exec" where
  "ehooks_pre_reentrancy tsdn =
     bind (if tsdn_null tsdn then tsd_fetch else tsdn_tsd tsdn) (\<lambda>tsd.
     tsd_pre_reentrancy_raw tsd)"

definition ehooks_post_reentrancy :: "tsdn_t \<Rightarrow> (unit, 'w) exec" where
  "ehooks_post_reentrancy tsdn =
     bind (if tsdn_null tsdn then tsd_fetch else tsdn_tsd tsdn) (\<lambda>tsd.
     tsd_post_reentrancy_raw tsd)"

section \<open>The handle\<close>

text \<open>
  Modelled from the spec: \<^verbatim>\<open>ehooks_init\<close> is only declared in this header. The spec has
  it store the table reference into the handle without reading the prior value.
\<close>

definition ehooks_init :: "vaddr \<Rightarrow> vaddr \<Rightarrow> (unit, 'w) exec" where
  "ehooks_init ehooks extent_hooks s =
     Inr ((), s\<lparr>ehooks_heap := (ehooks_heap s)(ehooks \<mapsto> \<lparr>ptr = extent_hooks\<rparr>)\<rparr>)"

definition ehooks_set_extent_hooks_ptr :: "vaddr \<Rightarrow> vaddr \<Rightarrow> (unit, 'w) exec" where
  "ehooks_set_extent_hooks_ptr ehooks extent_hooks s =
     (case ehooks_heap s ehooks of
        None \<Rightarrow> Inl Bad_ehooks
      | Some e \<Rightarrow> Inr ((), s\<lparr>ehooks_heap := (ehooks_heap s)(ehooks \<mapsto> e\<lparr>ptr := extent_hooks\<rparr>)\<rparr>))"

definition ehooks_get_extent_hooks_ptr :: "vaddr \<Rightarrow> (vaddr, 'w) exec" where
  "ehooks_get_extent_hooks_ptr ehooks s =
     (case ehooks_heap s ehooks of None \<Rightarrow> Inl Bad_ehooks | Some e \<Rightarrow> Inr (ptr e, s))"

definition ehooks_are_default :: "'w build \<Rightarrow> vaddr \<Rightarrow> (bool, 'w) exec" where
  "ehooks_are_default cfg ehooks =
     bind (ehooks_get_extent_hooks_ptr ehooks) (\<lambda>p.
     return (p = ehooks_default_extent_hooks cfg))"

definition ehooks_split_will_fail :: "vaddr \<Rightarrow> (bool, 'w) exec" where
  "ehooks_split_will_fail ehooks =
     bind (ehooks_get_extent_hooks_ptr ehooks) (\<lambda>p.
     bind (hooks_deref p) (\<lambda>t.
     return (split t = None)))"

definition ehooks_merge_will_fail :: "vaddr \<Rightarrow> (bool, 'w) exec" where
  "ehooks_merge_will_fail ehooks =
     bind (ehooks_get_extent_hooks_ptr ehooks) (\<lambda>p.
     bind (hooks_deref p) (\<lambda>t.
     return (merge t = None)))"

section \<open>The nine dispatch operations\<close>

definition ehooks_alloc ::
  "'w build \<Rightarrow> tsdn_t \<Rightarrow> vaddr \<Rightarrow> vaddr \<Rightarrow> size_t \<Rightarrow> size_t \<Rightarrow> bool \<Rightarrow> bool \<Rightarrow> arena_ind_t
   \<Rightarrow> (vaddr \<times> bool \<times> bool, 'w) exec" where
  "ehooks_alloc cfg tsdn ehooks new_addr sz alignment zero commit_flag arena_ind =
     bind (ehooks_get_extent_hooks_ptr ehooks) (\<lambda>extent_hooks.
     if extent_hooks = ehooks_default_extent_hooks cfg then
       call_default Alloc
         (ehooks_default_alloc_impl cfg tsdn new_addr sz alignment zero commit_flag arena_ind)
     else
       bind (ehooks_pre_reentrancy tsdn) (\<lambda>_.
       bind (hooks_deref extent_hooks) (\<lambda>t.
       bind (call_hook extent_hooks Alloc
               (map_option (\<lambda>f. f extent_hooks new_addr sz alignment zero commit_flag arena_ind)
                  (alloc t))) (\<lambda>ret.
       bind (ehooks_post_reentrancy tsdn) (\<lambda>_.
       return ret)))))"

definition ehooks_dalloc ::
  "'w build \<Rightarrow> tsdn_t \<Rightarrow> vaddr \<Rightarrow> vaddr \<Rightarrow> size_t \<Rightarrow> bool \<Rightarrow> arena_ind_t \<Rightarrow> (bool, 'w) exec" where
  "ehooks_dalloc cfg tsdn ehooks addr sz committed arena_ind =
     bind (ehooks_get_extent_hooks_ptr ehooks) (\<lambda>extent_hooks.
     if extent_hooks = ehooks_default_extent_hooks cfg then
       call_default Dalloc (ehooks_default_dalloc_impl cfg addr sz)
     else
       bind (hooks_deref extent_hooks) (\<lambda>t.
       if dalloc t = None then return True
       else
         bind (ehooks_pre_reentrancy tsdn) (\<lambda>_.
         bind (call_hook extent_hooks Dalloc
                 (map_option (\<lambda>f. f extent_hooks addr sz committed arena_ind) (dalloc t))) (\<lambda>err.
         bind (ehooks_post_reentrancy tsdn) (\<lambda>_.
         return err)))))"

definition ehooks_destroy ::
  "'w build \<Rightarrow> tsdn_t \<Rightarrow> vaddr \<Rightarrow> vaddr \<Rightarrow> size_t \<Rightarrow> bool \<Rightarrow> arena_ind_t \<Rightarrow> (unit, 'w) exec" where
  "ehooks_destroy cfg tsdn ehooks addr sz committed arena_ind =
     bind (ehooks_get_extent_hooks_ptr ehooks) (\<lambda>extent_hooks.
     if extent_hooks = ehooks_default_extent_hooks cfg then
       call_default Destroy (ehooks_default_destroy_impl cfg addr sz)
     else
       bind (hooks_deref extent_hooks) (\<lambda>t.
       if destroy t = None then return ()
       else
         bind (ehooks_pre_reentrancy tsdn) (\<lambda>_.
         bind (call_hook extent_hooks Destroy
                 (map_option (\<lambda>f. f extent_hooks addr sz committed arena_ind) (destroy t))) (\<lambda>_.
         ehooks_post_reentrancy tsdn))))"

definition ehooks_commit ::
  "'w build \<Rightarrow> tsdn_t \<Rightarrow> vaddr \<Rightarrow> vaddr \<Rightarrow> size_t \<Rightarrow> size_t \<Rightarrow> size_t \<Rightarrow> arena_ind_t
   \<Rightarrow> (bool, 'w) exec" where
  "ehooks_commit cfg tsdn ehooks addr sz offset len arena_ind =
     bind (ehooks_get_extent_hooks_ptr ehooks) (\<lambda>extent_hooks.
     if extent_hooks = ehooks_default_extent_hooks cfg then
       call_default Commit (ehooks_default_commit_impl cfg addr offset len)
     else
       bind (hooks_deref extent_hooks) (\<lambda>t.
       if commit t = None then return True
       else
         bind (ehooks_pre_reentrancy tsdn) (\<lambda>_.
         bind (call_hook extent_hooks Commit
                 (map_option (\<lambda>f. f extent_hooks addr sz offset len arena_ind) (commit t))) (\<lambda>err.
         bind (ehooks_post_reentrancy tsdn) (\<lambda>_.
         return err)))))"

definition ehooks_decommit ::
  "'w build \<Rightarrow> tsdn_t \<Rightarrow> vaddr \<Rightarrow> vaddr \<Rightarrow> size_t \<Rightarrow> size_t \<Rightarrow> size_t \<Rightarrow> arena_ind_t
   \<Rightarrow> (bool, 'w) exec" where
  "ehooks_decommit cfg tsdn ehooks addr sz offset len arena_ind =
     bind (ehooks_get_extent_hooks_ptr ehooks) (\<lambda>extent_hooks.
     if extent_hooks = ehooks_default_extent_hooks cfg then
       call_default Decommit (ehooks_default_decommit_impl cfg addr offset len)
     else
       bind (hooks_deref extent_hooks) (\<lambda>t.
       if decommit t = None then return True
       else
         bind (ehooks_pre_reentrancy tsdn) (\<lambda>_.
         bind (call_hook extent_hooks Decommit
                 (map_option (\<lambda>f. f extent_hooks addr sz offset len arena_ind) (decommit t))) (\<lambda>err.
         bind (ehooks_post_reentrancy tsdn) (\<lambda>_.
         return err)))))"

text \<open>
  In \<^verbatim>\<open>ehooks_purge_lazy\<close> and \<^verbatim>\<open>ehooks_purge_forced\<close> the test for the default table is
  inside \<^verbatim>\<open>#ifdef PAGES_CAN_PURGE_LAZY\<close> (\<^verbatim>\<open>PAGES_CAN_PURGE_FORCED\<close>); the test of the slot
  that follows is not.
\<close>

definition ehooks_purge_lazy ::
  "'w build \<Rightarrow> tsdn_t \<Rightarrow> vaddr \<Rightarrow> vaddr \<Rightarrow> size_t \<Rightarrow> size_t \<Rightarrow> size_t \<Rightarrow> arena_ind_t
   \<Rightarrow> (bool, 'w) exec" where
  "ehooks_purge_lazy cfg tsdn ehooks addr sz offset len arena_ind =
     bind (ehooks_get_extent_hooks_ptr ehooks) (\<lambda>extent_hooks.
     if pages_can_purge_lazy cfg \<and> extent_hooks = ehooks_default_extent_hooks cfg then
       call_default Purge_lazy (ehooks_default_purge_lazy_impl cfg addr offset len)
     else
       bind (hooks_deref extent_hooks) (\<lambda>t.
       if purge_lazy t = None then return True
       else
         bind (ehooks_pre_reentrancy tsdn) (\<lambda>_.
         bind (call_hook extent_hooks Purge_lazy
                 (map_option (\<lambda>f. f extent_hooks addr sz offset len arena_ind) (purge_lazy t))) (\<lambda>err.
         bind (ehooks_post_reentrancy tsdn) (\<lambda>_.
         return err)))))"

definition ehooks_purge_forced ::
  "'w build \<Rightarrow> tsdn_t \<Rightarrow> vaddr \<Rightarrow> vaddr \<Rightarrow> size_t \<Rightarrow> size_t \<Rightarrow> size_t \<Rightarrow> arena_ind_t
   \<Rightarrow> (bool, 'w) exec" where
  "ehooks_purge_forced cfg tsdn ehooks addr sz offset len arena_ind =
     bind (ehooks_get_extent_hooks_ptr ehooks) (\<lambda>extent_hooks.
     if pages_can_purge_forced cfg \<and> extent_hooks = ehooks_default_extent_hooks cfg then
       call_default Purge_forced (ehooks_default_purge_forced_impl cfg addr offset len)
     else
       bind (hooks_deref extent_hooks) (\<lambda>t.
       if purge_forced t = None then return True
       else
         bind (ehooks_pre_reentrancy tsdn) (\<lambda>_.
         bind (call_hook extent_hooks Purge_forced
                 (map_option (\<lambda>f. f extent_hooks addr sz offset len arena_ind) (purge_forced t))) (\<lambda>err.
         bind (ehooks_post_reentrancy tsdn) (\<lambda>_.
         return err)))))"

text \<open>\<^verbatim>\<open>ehooks_split\<close> loads the pointer, then tests \<^verbatim>\<open>ehooks_are_default\<close>, a second load.\<close>

definition ehooks_split ::
  "'w build \<Rightarrow> tsdn_t \<Rightarrow> vaddr \<Rightarrow> vaddr \<Rightarrow> size_t \<Rightarrow> size_t \<Rightarrow> size_t \<Rightarrow> bool \<Rightarrow> arena_ind_t
   \<Rightarrow> (bool, 'w) exec" where
  "ehooks_split cfg tsdn ehooks addr sz size_a size_b committed arena_ind =
     bind (ehooks_get_extent_hooks_ptr ehooks) (\<lambda>extent_hooks.
     bind (ehooks_are_default cfg ehooks) (\<lambda>is_default.
     if is_default then
       call_default Split (ehooks_default_split_impl cfg)
     else
       bind (hooks_deref extent_hooks) (\<lambda>t.
       if split t = None then return True
       else
         bind (ehooks_pre_reentrancy tsdn) (\<lambda>_.
         bind (call_hook extent_hooks Split
                 (map_option (\<lambda>f. f extent_hooks addr sz size_a size_b committed arena_ind)
                    (split t))) (\<lambda>err.
         bind (ehooks_post_reentrancy tsdn) (\<lambda>_.
         return err))))))"

definition ehooks_merge ::
  "'w build \<Rightarrow> tsdn_t \<Rightarrow> vaddr \<Rightarrow> vaddr \<Rightarrow> size_t \<Rightarrow> vaddr \<Rightarrow> size_t \<Rightarrow> bool \<Rightarrow> arena_ind_t
   \<Rightarrow> (bool, 'w) exec" where
  "ehooks_merge cfg tsdn ehooks addr_a size_a addr_b size_b committed arena_ind =
     bind (ehooks_get_extent_hooks_ptr ehooks) (\<lambda>extent_hooks.
     if extent_hooks = ehooks_default_extent_hooks cfg then
       call_default Merge (ehooks_default_merge_impl cfg addr_a addr_b)
     else
       bind (hooks_deref extent_hooks) (\<lambda>t.
       if merge t = None then return True
       else
         bind (ehooks_pre_reentrancy tsdn) (\<lambda>_.
         bind (call_hook extent_hooks Merge
                 (map_option (\<lambda>f. f extent_hooks addr_a size_a addr_b size_b committed arena_ind)
                    (merge t))) (\<lambda>err.
         bind (ehooks_post_reentrancy tsdn) (\<lambda>_.
         return err)))))"

section \<open>Callers\<close>

text \<open>
  A caller of this layer issues dispatch calls one after the other, each with its own
  thread-context token and handle. \<open>ehooks_dispatch\<close> runs one call of the nine
  operations, \<open>ehooks_run\<close> a sequence of them, stopping at the first undefined behaviour.
\<close>

datatype ehooks_call =
  Call_alloc vaddr size_t size_t bool bool arena_ind_t
  | Call_dalloc vaddr size_t bool arena_ind_t
  | Call_destroy vaddr size_t bool arena_ind_t
  | Call_commit vaddr size_t size_t size_t arena_ind_t
  | Call_decommit vaddr size_t size_t size_t arena_ind_t
  | Call_purge_lazy vaddr size_t size_t size_t arena_ind_t
  | Call_purge_forced vaddr size_t size_t size_t arena_ind_t
  | Call_split vaddr size_t size_t size_t bool arena_ind_t
  | Call_merge vaddr size_t vaddr size_t bool arena_ind_t

datatype ehooks_ret = Ret_alloc "vaddr \<times> bool \<times> bool" | Ret_bool bool | Ret_void

fun ehooks_dispatch :: "'w build \<Rightarrow> tsdn_t \<Rightarrow> vaddr \<Rightarrow> ehooks_call \<Rightarrow> (ehooks_ret, 'w) exec" where
  "ehooks_dispatch cfg tsdn ehooks (Call_alloc new_addr sz alignment zero commit_flag arena_ind) =
     bind (ehooks_alloc cfg tsdn ehooks new_addr sz alignment zero commit_flag arena_ind)
       (\<lambda>r. return (Ret_alloc r))"
| "ehooks_dispatch cfg tsdn ehooks (Call_dalloc addr sz committed arena_ind) =
     bind (ehooks_dalloc cfg tsdn ehooks addr sz committed arena_ind) (\<lambda>r. return (Ret_bool r))"
| "ehooks_dispatch cfg tsdn ehooks (Call_destroy addr sz committed arena_ind) =
     bind (ehooks_destroy cfg tsdn ehooks addr sz committed arena_ind) (\<lambda>_. return Ret_void)"
| "ehooks_dispatch cfg tsdn ehooks (Call_commit addr sz offset len arena_ind) =
     bind (ehooks_commit cfg tsdn ehooks addr sz offset len arena_ind) (\<lambda>r. return (Ret_bool r))"
| "ehooks_dispatch cfg tsdn ehooks (Call_decommit addr sz offset len arena_ind) =
     bind (ehooks_decommit cfg tsdn ehooks addr sz offset len arena_ind) (\<lambda>r. return (Ret_bool r))"
| "ehooks_dispatch cfg tsdn ehooks (Call_purge_lazy addr sz offset len arena_ind) =
     bind (ehooks_purge_lazy cfg tsdn ehooks addr sz offset len arena_ind) (\<lambda>r. return (Ret_bool r))"
| "ehooks_dispatch cfg tsdn ehooks (Call_purge_forced addr sz offset len arena_ind) =
     bind (ehooks_purge_forced cfg tsdn ehooks addr sz offset len arena_ind)
       (\<lambda>r. return (Ret_bool r))"
| "ehooks_dispatch cfg tsdn ehooks (Call_split addr sz size_a size_b committed arena_ind) =
     bind (ehooks_split cfg tsdn ehooks addr sz size_a size_b committed arena_ind)
       (\<lambda>r. return (Ret_bool r))"
| "ehooks_dispatch cfg tsdn ehooks (Call_merge addr_a size_a addr_b size_b committed arena_ind) =
     bind (ehooks_merge cfg tsdn ehooks addr_a size_a addr_b size_b committed arena_ind)
       (\<lambda>r. return (Ret_bool r))"

fun ehooks_run ::
  "'w build \<Rightarrow> (tsdn_t \<times> vaddr \<times> ehooks_call) list \<Rightarrow> (ehooks_ret list, 'w) exec" where
  "ehooks_run cfg [] = return []"
| "ehooks_run cfg ((tsdn, ehooks, c) # cs) =
     bind (ehooks_dispatch cfg tsdn ehooks c) (\<lambda>r.
     bind (ehooks_run cfg cs) (\<lambda>rs.
     return (r # rs)))"

section \<open>Vocabulary of the properties\<close>

text \<open>The thread context the guard acts on for a given token.\<close>

definition guard_tsd :: "tsdn_t \<Rightarrow> 'w state \<Rightarrow> tsd_ptr" where
  "guard_tsd tsdn s = (case tsdn of None \<Rightarrow> self_thread s | Some t \<Rightarrow> t)"

text \<open>
  The state after a direct call of a default implementation that left the outside state
  \<open>w\<close>, and the state after a call through slot \<open>sl\<close> of the table at \<open>p\<close> under the guard.
\<close>

definition after_default :: "hook_slot \<Rightarrow> 'w \<Rightarrow> 'w state \<Rightarrow> 'w state" where
  "after_default sl w s = s\<lparr>world := w, trace := trace s @ [Default_impl sl]\<rparr>"

definition after_guarded :: "tsdn_t \<Rightarrow> vaddr \<Rightarrow> hook_slot \<Rightarrow> 'w \<Rightarrow> 'w state \<Rightarrow> 'w state" where
  "after_guarded tsdn p sl w s =
     s\<lparr>tsd_booted :=
         (case tsdn of None \<Rightarrow> (tsd_booted s)(self_thread s := True) | Some t \<Rightarrow> tsd_booted s),
       world := w,
       trace := trace s @ [Reentrancy_enter (guard_tsd tsdn s), Custom_hook p sl,
                           Reentrancy_exit (guard_tsd tsdn s)]\<rparr>"

text \<open>
  Matching of guard entries and exits in a log: entries are pushed, an exit must find the
  entry of the same thread context on top. A log is balanced when the scan from the empty
  stack ends with the empty stack.
\<close>

fun guard_scan :: "event list \<Rightarrow> tsd_ptr list \<Rightarrow> tsd_ptr list option" where
  "guard_scan [] st = Some st"
| "guard_scan (Reentrancy_enter t # es) st = guard_scan es (t # st)"
| "guard_scan (Reentrancy_exit t # es) st =
     (case st of [] \<Rightarrow> None | u # st' \<Rightarrow> if u = t then guard_scan es st' else None)"
| "guard_scan (Custom_hook p sl # es) st = guard_scan es st"
| "guard_scan (Default_impl sl # es) st = guard_scan es st"

section \<open>Concrete builds, tables and states\<close>

text \<open>
  The outside state is a counter of the calls that reached a backend. \<open>build_purge\<close> has
  both purge capabilities, \<open>build_nopurge\<close> has neither.
\<close>

definition build_purge :: "nat build" where
  "build_purge =
     \<lparr>ehooks_default_extent_hooks = 0x1000,
      pages_can_purge_lazy = True,
      pages_can_purge_forced = True,
      ehooks_default_alloc_impl = (\<lambda>tsdn new_addr sz alignment zero commit_flag arena_ind w.
         ((0x7000, zero, commit_flag), Suc w)),
      ehooks_default_dalloc_impl = (\<lambda>addr sz w. (False, Suc w)),
      ehooks_default_destroy_impl = (\<lambda>addr sz w. ((), Suc w)),
      ehooks_default_commit_impl = (\<lambda>addr offset len w. (False, Suc w)),
      ehooks_default_decommit_impl = (\<lambda>addr offset len w. (False, Suc w)),
      ehooks_default_purge_lazy_impl = (\<lambda>addr offset len w. (False, Suc w)),
      ehooks_default_purge_forced_impl = (\<lambda>addr offset len w. (False, Suc w)),
      ehooks_default_split_impl = (\<lambda>w. (False, Suc w)),
      ehooks_default_merge_impl = (\<lambda>addr_a addr_b w. (False, Suc w))\<rparr>"

definition build_nopurge :: "nat build" where
  "build_nopurge = build_purge\<lparr>pages_can_purge_lazy := False, pages_can_purge_forced := False\<rparr>"

text \<open>
  Four tables: the default table of a build without purge capability (both purge slots
  NULL), a custom table with only alloc populated, a custom table with no slot populated,
  and a custom table with every slot populated, whose split and destroy hooks return true
  and whose other hooks report success.
\<close>

definition hooks_default_nopurge :: "nat extent_hooks_t" where
  "hooks_default_nopurge =
     \<lparr>alloc = Some (\<lambda>p new_addr sz alignment zero commit_flag arena_ind w.
         ((0x7000, zero, commit_flag), Suc w)),
      dalloc = Some (\<lambda>p addr sz committed arena_ind w. (False, Suc w)),
      destroy = Some (\<lambda>p addr sz committed arena_ind w. (False, Suc w)),
      commit = Some (\<lambda>p addr sz offset len arena_ind w. (False, Suc w)),
      decommit = Some (\<lambda>p addr sz offset len arena_ind w. (False, Suc w)),
      purge_lazy = None,
      purge_forced = None,
      split = Some (\<lambda>p addr sz size_a size_b committed arena_ind w. (False, Suc w)),
      merge = Some (\<lambda>p addr_a size_a addr_b size_b committed arena_ind w. (False, Suc w))\<rparr>"

definition hooks_only_alloc :: "nat extent_hooks_t" where
  "hooks_only_alloc =
     \<lparr>alloc = Some (\<lambda>p new_addr sz alignment zero commit_flag arena_ind w.
         ((0x9000, zero, commit_flag), Suc w)),
      dalloc = None, destroy = None, commit = None, decommit = None,
      purge_lazy = None, purge_forced = None, split = None, merge = None\<rparr>"

definition hooks_empty :: "nat extent_hooks_t" where
  "hooks_empty =
     \<lparr>alloc = None, dalloc = None, destroy = None, commit = None, decommit = None,
      purge_lazy = None, purge_forced = None, split = None, merge = None\<rparr>"

definition hooks_all :: "nat extent_hooks_t" where
  "hooks_all =
     \<lparr>alloc = Some (\<lambda>p new_addr sz alignment zero commit_flag arena_ind w.
         ((0xA000, zero, commit_flag), Suc w)),
      dalloc = Some (\<lambda>p addr sz committed arena_ind w. (False, Suc w)),
      destroy = Some (\<lambda>p addr sz committed arena_ind w. (True, Suc w)),
      commit = Some (\<lambda>p addr sz offset len arena_ind w. (False, Suc w)),
      decommit = Some (\<lambda>p addr sz offset len arena_ind w. (False, Suc w)),
      purge_lazy = Some (\<lambda>p addr sz offset len arena_ind w. (False, Suc w)),
      purge_forced = Some (\<lambda>p addr sz offset len arena_ind w. (False, Suc w)),
      split = Some (\<lambda>p addr sz size_a size_b committed arena_ind w. (True, Suc w)),
      merge = Some (\<lambda>p addr_a size_a addr_b size_b committed arena_ind w. (False, Suc w))\<rparr>"

text \<open>
  One state with four handles: at \<open>0x100\<close> on the default table, at \<open>0x200\<close> on the table
  with only alloc, at \<open>0x300\<close> on the fully populated table, at \<open>0x400\<close> on the empty
  table. Thread 0 is calling; no thread context is established yet.
\<close>

definition st0 :: "nat state" where
  "st0 =
     \<lparr>ehooks_heap = [0x100 \<mapsto> \<lparr>ptr = 0x1000\<rparr>, 0x200 \<mapsto> \<lparr>ptr = 0x2000\<rparr>, 0x300 \<mapsto> \<lparr>ptr = 0x3000\<rparr>,
                     0x400 \<mapsto> \<lparr>ptr = 0x4000\<rparr>],
      hooks_heap = [0x1000 \<mapsto> hooks_default_nopurge, 0x2000 \<mapsto> hooks_only_alloc,
                    0x3000 \<mapsto> hooks_all, 0x4000 \<mapsto> hooks_empty],
      self_thread = 0,
      tsd_booted = (\<lambda>t. False),
      reentrancy_level = (\<lambda>t. 0),
      world = 0,
      trace = []\<rparr>"

section \<open>Each operation, path by path\<close>

lemmas exec_defs = return_def bind_def call_default_def call_hook_def hooks_deref_def
  tsdn_null_def tsdn_tsd_def tsd_fetch_def tsd_pre_reentrancy_raw_def
  tsd_post_reentrancy_raw_def ehooks_pre_reentrancy_def ehooks_post_reentrancy_def
  ehooks_get_extent_hooks_ptr_def ehooks_are_default_def

lemmas after_defs = after_default_def after_guarded_def guard_tsd_def

text \<open>
  The default path: a valid handle that holds the address of the default table. For the
  two purge operations the path exists only in a build with the capability.
\<close>

lemma ehooks_alloc_default:
  assumes "ehooks_heap s ehooks = Some e" and "ptr e = ehooks_default_extent_hooks cfg"
  shows "ehooks_alloc cfg tsdn ehooks new_addr sz alignment zero commit_flag arena_ind s =
     Inr (fst (ehooks_default_alloc_impl cfg tsdn new_addr sz alignment zero commit_flag arena_ind (world s)),
          after_default Alloc (snd (ehooks_default_alloc_impl cfg tsdn new_addr sz alignment zero commit_flag arena_ind (world s))) s)"
  using assms by (simp add: ehooks_alloc_def exec_defs after_defs)

lemma ehooks_dalloc_default:
  assumes "ehooks_heap s ehooks = Some e" and "ptr e = ehooks_default_extent_hooks cfg"
  shows "ehooks_dalloc cfg tsdn ehooks addr sz committed arena_ind s =
     Inr (fst (ehooks_default_dalloc_impl cfg addr sz (world s)),
          after_default Dalloc (snd (ehooks_default_dalloc_impl cfg addr sz (world s))) s)"
  using assms by (simp add: ehooks_dalloc_def exec_defs after_defs)

lemma ehooks_destroy_default:
  assumes "ehooks_heap s ehooks = Some e" and "ptr e = ehooks_default_extent_hooks cfg"
  shows "ehooks_destroy cfg tsdn ehooks addr sz committed arena_ind s =
     Inr (fst (ehooks_default_destroy_impl cfg addr sz (world s)),
          after_default Destroy (snd (ehooks_default_destroy_impl cfg addr sz (world s))) s)"
  using assms by (simp add: ehooks_destroy_def exec_defs after_defs)

lemma ehooks_commit_default:
  assumes "ehooks_heap s ehooks = Some e" and "ptr e = ehooks_default_extent_hooks cfg"
  shows "ehooks_commit cfg tsdn ehooks addr sz offset len arena_ind s =
     Inr (fst (ehooks_default_commit_impl cfg addr offset len (world s)),
          after_default Commit (snd (ehooks_default_commit_impl cfg addr offset len (world s))) s)"
  using assms by (simp add: ehooks_commit_def exec_defs after_defs)

lemma ehooks_decommit_default:
  assumes "ehooks_heap s ehooks = Some e" and "ptr e = ehooks_default_extent_hooks cfg"
  shows "ehooks_decommit cfg tsdn ehooks addr sz offset len arena_ind s =
     Inr (fst (ehooks_default_decommit_impl cfg addr offset len (world s)),
          after_default Decommit (snd (ehooks_default_decommit_impl cfg addr offset len (world s))) s)"
  using assms by (simp add: ehooks_decommit_def exec_defs after_defs)

lemma ehooks_purge_lazy_default:
  assumes "ehooks_heap s ehooks = Some e" and "ptr e = ehooks_default_extent_hooks cfg" and "pages_can_purge_lazy cfg"
  shows "ehooks_purge_lazy cfg tsdn ehooks addr sz offset len arena_ind s =
     Inr (fst (ehooks_default_purge_lazy_impl cfg addr offset len (world s)),
          after_default Purge_lazy (snd (ehooks_default_purge_lazy_impl cfg addr offset len (world s))) s)"
  using assms by (simp add: ehooks_purge_lazy_def exec_defs after_defs)

lemma ehooks_purge_forced_default:
  assumes "ehooks_heap s ehooks = Some e" and "ptr e = ehooks_default_extent_hooks cfg" and "pages_can_purge_forced cfg"
  shows "ehooks_purge_forced cfg tsdn ehooks addr sz offset len arena_ind s =
     Inr (fst (ehooks_default_purge_forced_impl cfg addr offset len (world s)),
          after_default Purge_forced (snd (ehooks_default_purge_forced_impl cfg addr offset len (world s))) s)"
  using assms by (simp add: ehooks_purge_forced_def exec_defs after_defs)

lemma ehooks_split_default:
  assumes "ehooks_heap s ehooks = Some e" and "ptr e = ehooks_default_extent_hooks cfg"
  shows "ehooks_split cfg tsdn ehooks addr sz size_a size_b committed arena_ind s =
     Inr (fst (ehooks_default_split_impl cfg (world s)),
          after_default Split (snd (ehooks_default_split_impl cfg (world s))) s)"
  using assms by (simp add: ehooks_split_def exec_defs after_defs)

lemma ehooks_merge_default:
  assumes "ehooks_heap s ehooks = Some e" and "ptr e = ehooks_default_extent_hooks cfg"
  shows "ehooks_merge cfg tsdn ehooks addr_a size_a addr_b size_b committed arena_ind s =
     Inr (fst (ehooks_default_merge_impl cfg addr_a addr_b (world s)),
          after_default Merge (snd (ehooks_default_merge_impl cfg addr_a addr_b (world s))) s)"
  using assms by (simp add: ehooks_merge_def exec_defs after_defs)

text \<open>
  The path through the table: a valid handle whose pointer is not taken for the default
  table and points to a table. Alloc calls the slot without a test; every other operation
  tests the slot first.
\<close>

lemma ehooks_alloc_slot:
  assumes "ehooks_heap s ehooks = Some e" and "ptr e \<noteq> ehooks_default_extent_hooks cfg"
    and "hooks_heap s (ptr e) = Some t"
  shows "ehooks_alloc cfg tsdn ehooks new_addr sz alignment zero commit_flag arena_ind s =
     (case alloc t of
        None \<Rightarrow> Inl Null_call
      | Some f \<Rightarrow>
          Inr (fst (f (ptr e) new_addr sz alignment zero commit_flag arena_ind (world s)),
               after_guarded tsdn (ptr e) Alloc (snd (f (ptr e) new_addr sz alignment zero commit_flag arena_ind (world s))) s))"
  using assms
  by (cases tsdn; cases "alloc t") (simp_all add: ehooks_alloc_def exec_defs after_defs)

lemma ehooks_dalloc_slot:
  assumes "ehooks_heap s ehooks = Some e" and "ptr e \<noteq> ehooks_default_extent_hooks cfg"
    and "hooks_heap s (ptr e) = Some t"
  shows "ehooks_dalloc cfg tsdn ehooks addr sz committed arena_ind s =
     (case dalloc t of
        None \<Rightarrow> Inr (True, s)
      | Some f \<Rightarrow>
          Inr (fst (f (ptr e) addr sz committed arena_ind (world s)),
               after_guarded tsdn (ptr e) Dalloc (snd (f (ptr e) addr sz committed arena_ind (world s))) s))"
  using assms
  by (cases tsdn; cases "dalloc t") (simp_all add: ehooks_dalloc_def exec_defs after_defs)

lemma ehooks_destroy_slot:
  assumes "ehooks_heap s ehooks = Some e" and "ptr e \<noteq> ehooks_default_extent_hooks cfg"
    and "hooks_heap s (ptr e) = Some t"
  shows "ehooks_destroy cfg tsdn ehooks addr sz committed arena_ind s =
     (case destroy t of
        None \<Rightarrow> Inr ((), s)
      | Some f \<Rightarrow>
          Inr ((),
               after_guarded tsdn (ptr e) Destroy (snd (f (ptr e) addr sz committed arena_ind (world s))) s))"
  using assms
  by (cases tsdn; cases "destroy t") (simp_all add: ehooks_destroy_def exec_defs after_defs)

lemma ehooks_commit_slot:
  assumes "ehooks_heap s ehooks = Some e" and "ptr e \<noteq> ehooks_default_extent_hooks cfg"
    and "hooks_heap s (ptr e) = Some t"
  shows "ehooks_commit cfg tsdn ehooks addr sz offset len arena_ind s =
     (case commit t of
        None \<Rightarrow> Inr (True, s)
      | Some f \<Rightarrow>
          Inr (fst (f (ptr e) addr sz offset len arena_ind (world s)),
               after_guarded tsdn (ptr e) Commit (snd (f (ptr e) addr sz offset len arena_ind (world s))) s))"
  using assms
  by (cases tsdn; cases "commit t") (simp_all add: ehooks_commit_def exec_defs after_defs)

lemma ehooks_decommit_slot:
  assumes "ehooks_heap s ehooks = Some e" and "ptr e \<noteq> ehooks_default_extent_hooks cfg"
    and "hooks_heap s (ptr e) = Some t"
  shows "ehooks_decommit cfg tsdn ehooks addr sz offset len arena_ind s =
     (case decommit t of
        None \<Rightarrow> Inr (True, s)
      | Some f \<Rightarrow>
          Inr (fst (f (ptr e) addr sz offset len arena_ind (world s)),
               after_guarded tsdn (ptr e) Decommit (snd (f (ptr e) addr sz offset len arena_ind (world s))) s))"
  using assms
  by (cases tsdn; cases "decommit t") (simp_all add: ehooks_decommit_def exec_defs after_defs)

lemma ehooks_purge_lazy_slot:
  assumes "ehooks_heap s ehooks = Some e" and "\<not> (pages_can_purge_lazy cfg \<and> ptr e = ehooks_default_extent_hooks cfg)"
    and "hooks_heap s (ptr e) = Some t"
  shows "ehooks_purge_lazy cfg tsdn ehooks addr sz offset len arena_ind s =
     (case purge_lazy t of
        None \<Rightarrow> Inr (True, s)
      | Some f \<Rightarrow>
          Inr (fst (f (ptr e) addr sz offset len arena_ind (world s)),
               after_guarded tsdn (ptr e) Purge_lazy (snd (f (ptr e) addr sz offset len arena_ind (world s))) s))"
  using assms
  by (cases tsdn; cases "purge_lazy t") (auto simp add: ehooks_purge_lazy_def exec_defs after_defs)

lemma ehooks_purge_forced_slot:
  assumes "ehooks_heap s ehooks = Some e" and "\<not> (pages_can_purge_forced cfg \<and> ptr e = ehooks_default_extent_hooks cfg)"
    and "hooks_heap s (ptr e) = Some t"
  shows "ehooks_purge_forced cfg tsdn ehooks addr sz offset len arena_ind s =
     (case purge_forced t of
        None \<Rightarrow> Inr (True, s)
      | Some f \<Rightarrow>
          Inr (fst (f (ptr e) addr sz offset len arena_ind (world s)),
               after_guarded tsdn (ptr e) Purge_forced (snd (f (ptr e) addr sz offset len arena_ind (world s))) s))"
  using assms
  by (cases tsdn; cases "purge_forced t") (auto simp add: ehooks_purge_forced_def exec_defs after_defs)

lemma ehooks_split_slot:
  assumes "ehooks_heap s ehooks = Some e" and "ptr e \<noteq> ehooks_default_extent_hooks cfg"
    and "hooks_heap s (ptr e) = Some t"
  shows "ehooks_split cfg tsdn ehooks addr sz size_a size_b committed arena_ind s =
     (case split t of
        None \<Rightarrow> Inr (True, s)
      | Some f \<Rightarrow>
          Inr (fst (f (ptr e) addr sz size_a size_b committed arena_ind (world s)),
               after_guarded tsdn (ptr e) Split (snd (f (ptr e) addr sz size_a size_b committed arena_ind (world s))) s))"
  using assms
  by (cases tsdn; cases "split t") (simp_all add: ehooks_split_def exec_defs after_defs)

lemma ehooks_merge_slot:
  assumes "ehooks_heap s ehooks = Some e" and "ptr e \<noteq> ehooks_default_extent_hooks cfg"
    and "hooks_heap s (ptr e) = Some t"
  shows "ehooks_merge cfg tsdn ehooks addr_a size_a addr_b size_b committed arena_ind s =
     (case merge t of
        None \<Rightarrow> Inr (True, s)
      | Some f \<Rightarrow>
          Inr (fst (f (ptr e) addr_a size_a addr_b size_b committed arena_ind (world s)),
               after_guarded tsdn (ptr e) Merge (snd (f (ptr e) addr_a size_a addr_b size_b committed arena_ind (world s))) s))"
  using assms
  by (cases tsdn; cases "merge t") (simp_all add: ehooks_merge_def exec_defs after_defs)

text \<open>What a call that returns can have done to the state.\<close>

lemma ehooks_alloc_outcome:
  assumes "ehooks_alloc cfg tsdn ehooks new_addr sz alignment zero commit_flag arena_ind s = Inr (r, s')"
  shows "s' = s \<or> (\<exists>w. s' = after_default Alloc w s)
         \<or> (\<exists>p w. s' = after_guarded tsdn p Alloc w s)"
proof (cases "ehooks_heap s ehooks")
  case None
  with assms show ?thesis by (simp add: ehooks_alloc_def exec_defs)
next
  case (Some e)
  show ?thesis
  proof (cases "ptr e = ehooks_default_extent_hooks cfg")
    case True
    with Some assms show ?thesis by (auto simp add: ehooks_alloc_default)
  next
    case False
    show ?thesis
    proof (cases "hooks_heap s (ptr e)")
      case None
      with Some False assms show ?thesis
        by (cases tsdn) (auto simp add: ehooks_alloc_def exec_defs)
    next
      case (Some t)
      with \<open>ehooks_heap s ehooks = Some e\<close> False assms show ?thesis
        by (cases "alloc t") (auto simp add: ehooks_alloc_slot)
    qed
  qed
qed

lemma ehooks_dalloc_outcome:
  assumes "ehooks_dalloc cfg tsdn ehooks addr sz committed arena_ind s = Inr (r, s')"
  shows "s' = s \<or> (\<exists>w. s' = after_default Dalloc w s)
         \<or> (\<exists>p w. s' = after_guarded tsdn p Dalloc w s)"
proof (cases "ehooks_heap s ehooks")
  case None
  with assms show ?thesis by (simp add: ehooks_dalloc_def exec_defs)
next
  case (Some e)
  show ?thesis
  proof (cases "ptr e = ehooks_default_extent_hooks cfg")
    case True
    with Some assms show ?thesis by (auto simp add: ehooks_dalloc_default)
  next
    case False
    show ?thesis
    proof (cases "hooks_heap s (ptr e)")
      case None
      with Some False assms show ?thesis
        by (cases tsdn) (auto simp add: ehooks_dalloc_def exec_defs)
    next
      case (Some t)
      with \<open>ehooks_heap s ehooks = Some e\<close> False assms show ?thesis
        by (cases "dalloc t") (auto simp add: ehooks_dalloc_slot)
    qed
  qed
qed

lemma ehooks_destroy_outcome:
  assumes "ehooks_destroy cfg tsdn ehooks addr sz committed arena_ind s = Inr (r, s')"
  shows "s' = s \<or> (\<exists>w. s' = after_default Destroy w s)
         \<or> (\<exists>p w. s' = after_guarded tsdn p Destroy w s)"
proof (cases "ehooks_heap s ehooks")
  case None
  with assms show ?thesis by (simp add: ehooks_destroy_def exec_defs)
next
  case (Some e)
  show ?thesis
  proof (cases "ptr e = ehooks_default_extent_hooks cfg")
    case True
    with Some assms show ?thesis by (auto simp add: ehooks_destroy_default)
  next
    case False
    show ?thesis
    proof (cases "hooks_heap s (ptr e)")
      case None
      with Some False assms show ?thesis
        by (cases tsdn) (auto simp add: ehooks_destroy_def exec_defs)
    next
      case (Some t)
      with \<open>ehooks_heap s ehooks = Some e\<close> False assms show ?thesis
        by (cases "destroy t") (auto simp add: ehooks_destroy_slot)
    qed
  qed
qed

lemma ehooks_commit_outcome:
  assumes "ehooks_commit cfg tsdn ehooks addr sz offset len arena_ind s = Inr (r, s')"
  shows "s' = s \<or> (\<exists>w. s' = after_default Commit w s)
         \<or> (\<exists>p w. s' = after_guarded tsdn p Commit w s)"
proof (cases "ehooks_heap s ehooks")
  case None
  with assms show ?thesis by (simp add: ehooks_commit_def exec_defs)
next
  case (Some e)
  show ?thesis
  proof (cases "ptr e = ehooks_default_extent_hooks cfg")
    case True
    with Some assms show ?thesis by (auto simp add: ehooks_commit_default)
  next
    case False
    show ?thesis
    proof (cases "hooks_heap s (ptr e)")
      case None
      with Some False assms show ?thesis
        by (cases tsdn) (auto simp add: ehooks_commit_def exec_defs)
    next
      case (Some t)
      with \<open>ehooks_heap s ehooks = Some e\<close> False assms show ?thesis
        by (cases "commit t") (auto simp add: ehooks_commit_slot)
    qed
  qed
qed

lemma ehooks_decommit_outcome:
  assumes "ehooks_decommit cfg tsdn ehooks addr sz offset len arena_ind s = Inr (r, s')"
  shows "s' = s \<or> (\<exists>w. s' = after_default Decommit w s)
         \<or> (\<exists>p w. s' = after_guarded tsdn p Decommit w s)"
proof (cases "ehooks_heap s ehooks")
  case None
  with assms show ?thesis by (simp add: ehooks_decommit_def exec_defs)
next
  case (Some e)
  show ?thesis
  proof (cases "ptr e = ehooks_default_extent_hooks cfg")
    case True
    with Some assms show ?thesis by (auto simp add: ehooks_decommit_default)
  next
    case False
    show ?thesis
    proof (cases "hooks_heap s (ptr e)")
      case None
      with Some False assms show ?thesis
        by (cases tsdn) (auto simp add: ehooks_decommit_def exec_defs)
    next
      case (Some t)
      with \<open>ehooks_heap s ehooks = Some e\<close> False assms show ?thesis
        by (cases "decommit t") (auto simp add: ehooks_decommit_slot)
    qed
  qed
qed

lemma ehooks_purge_lazy_outcome:
  assumes "ehooks_purge_lazy cfg tsdn ehooks addr sz offset len arena_ind s = Inr (r, s')"
  shows "s' = s \<or> (\<exists>w. s' = after_default Purge_lazy w s)
         \<or> (\<exists>p w. s' = after_guarded tsdn p Purge_lazy w s)"
proof (cases "ehooks_heap s ehooks")
  case None
  with assms show ?thesis by (simp add: ehooks_purge_lazy_def exec_defs)
next
  case (Some e)
  show ?thesis
  proof (cases "pages_can_purge_lazy cfg \<and> ptr e = ehooks_default_extent_hooks cfg")
    case True
    with Some assms show ?thesis by (auto simp add: ehooks_purge_lazy_default)
  next
    case False
    show ?thesis
    proof (cases "hooks_heap s (ptr e)")
      case None
      with Some False assms show ?thesis
        by (cases tsdn) (auto simp add: ehooks_purge_lazy_def exec_defs)
    next
      case (Some t)
      with \<open>ehooks_heap s ehooks = Some e\<close> False assms show ?thesis
        by (cases "purge_lazy t") (auto simp add: ehooks_purge_lazy_slot)
    qed
  qed
qed

lemma ehooks_purge_forced_outcome:
  assumes "ehooks_purge_forced cfg tsdn ehooks addr sz offset len arena_ind s = Inr (r, s')"
  shows "s' = s \<or> (\<exists>w. s' = after_default Purge_forced w s)
         \<or> (\<exists>p w. s' = after_guarded tsdn p Purge_forced w s)"
proof (cases "ehooks_heap s ehooks")
  case None
  with assms show ?thesis by (simp add: ehooks_purge_forced_def exec_defs)
next
  case (Some e)
  show ?thesis
  proof (cases "pages_can_purge_forced cfg \<and> ptr e = ehooks_default_extent_hooks cfg")
    case True
    with Some assms show ?thesis by (auto simp add: ehooks_purge_forced_default)
  next
    case False
    show ?thesis
    proof (cases "hooks_heap s (ptr e)")
      case None
      with Some False assms show ?thesis
        by (cases tsdn) (auto simp add: ehooks_purge_forced_def exec_defs)
    next
      case (Some t)
      with \<open>ehooks_heap s ehooks = Some e\<close> False assms show ?thesis
        by (cases "purge_forced t") (auto simp add: ehooks_purge_forced_slot)
    qed
  qed
qed

lemma ehooks_split_outcome:
  assumes "ehooks_split cfg tsdn ehooks addr sz size_a size_b committed arena_ind s = Inr (r, s')"
  shows "s' = s \<or> (\<exists>w. s' = after_default Split w s)
         \<or> (\<exists>p w. s' = after_guarded tsdn p Split w s)"
proof (cases "ehooks_heap s ehooks")
  case None
  with assms show ?thesis by (simp add: ehooks_split_def exec_defs)
next
  case (Some e)
  show ?thesis
  proof (cases "ptr e = ehooks_default_extent_hooks cfg")
    case True
    with Some assms show ?thesis by (auto simp add: ehooks_split_default)
  next
    case False
    show ?thesis
    proof (cases "hooks_heap s (ptr e)")
      case None
      with Some False assms show ?thesis
        by (cases tsdn) (auto simp add: ehooks_split_def exec_defs)
    next
      case (Some t)
      with \<open>ehooks_heap s ehooks = Some e\<close> False assms show ?thesis
        by (cases "split t") (auto simp add: ehooks_split_slot)
    qed
  qed
qed

lemma ehooks_merge_outcome:
  assumes "ehooks_merge cfg tsdn ehooks addr_a size_a addr_b size_b committed arena_ind s = Inr (r, s')"
  shows "s' = s \<or> (\<exists>w. s' = after_default Merge w s)
         \<or> (\<exists>p w. s' = after_guarded tsdn p Merge w s)"
proof (cases "ehooks_heap s ehooks")
  case None
  with assms show ?thesis by (simp add: ehooks_merge_def exec_defs)
next
  case (Some e)
  show ?thesis
  proof (cases "ptr e = ehooks_default_extent_hooks cfg")
    case True
    with Some assms show ?thesis by (auto simp add: ehooks_merge_default)
  next
    case False
    show ?thesis
    proof (cases "hooks_heap s (ptr e)")
      case None
      with Some False assms show ?thesis
        by (cases tsdn) (auto simp add: ehooks_merge_def exec_defs)
    next
      case (Some t)
      with \<open>ehooks_heap s ehooks = Some e\<close> False assms show ?thesis
        by (cases "merge t") (auto simp add: ehooks_merge_slot)
    qed
  qed
qed

section \<open>Facts about the concrete builds and state\<close>

lemma st0_handles:
  "ehooks_heap st0 0x100 = Some \<lparr>ptr = 0x1000\<rparr>"
  "ehooks_heap st0 0x200 = Some \<lparr>ptr = 0x2000\<rparr>"
  "ehooks_heap st0 0x300 = Some \<lparr>ptr = 0x3000\<rparr>"
  "ehooks_heap st0 0x400 = Some \<lparr>ptr = 0x4000\<rparr>"
  by (simp_all add: st0_def)

lemma st0_tables:
  "hooks_heap st0 0x1000 = Some hooks_default_nopurge"
  "hooks_heap st0 0x2000 = Some hooks_only_alloc"
  "hooks_heap st0 0x3000 = Some hooks_all"
  "hooks_heap st0 0x4000 = Some hooks_empty"
  by (simp_all add: st0_def)

lemma st0_fields:
  "self_thread st0 = 0" "world st0 = 0" "trace st0 = []"
  "reentrancy_level st0 = (\<lambda>t. 0)" "tsd_booted st0 = (\<lambda>t. False)"
  by (simp_all add: st0_def)

lemma build_fields:
  "ehooks_default_extent_hooks build_purge = 0x1000"
  "pages_can_purge_lazy build_purge" "pages_can_purge_forced build_purge"
  "ehooks_default_extent_hooks build_nopurge = 0x1000"
  "\<not> pages_can_purge_lazy build_nopurge" "\<not> pages_can_purge_forced build_nopurge"
  by (simp_all add: build_nopurge_def build_purge_def)

lemma build_impls:
  "ehooks_default_alloc_impl build_purge tsdn new_addr sz alignment zero commit_flag arena_ind w =
     ((0x7000, zero, commit_flag), Suc w)"
  "ehooks_default_dalloc_impl build_purge addr sz w = (False, Suc w)"
  "ehooks_default_destroy_impl build_purge addr sz w = ((), Suc w)"
  "ehooks_default_commit_impl build_purge addr offset len w = (False, Suc w)"
  "ehooks_default_decommit_impl build_purge addr offset len w = (False, Suc w)"
  "ehooks_default_purge_lazy_impl build_purge addr offset len w = (False, Suc w)"
  "ehooks_default_purge_forced_impl build_purge addr offset len w = (False, Suc w)"
  "ehooks_default_split_impl build_purge w = (False, Suc w)"
  "ehooks_default_merge_impl build_purge addr addr_b w = (False, Suc w)"
  by (simp_all add: build_purge_def)

section \<open>Absent slots\<close>

text \<open>
  C1. For a valid handle on a table other than the default one, each of the seven
  operations with a boolean result (dalloc, commit, decommit, purge_lazy, purge_forced,
  split, merge) returns; when its slot is NULL it returns true and leaves the whole state
  as it was, the log and the reentrancy levels included, so the guard is not engaged and
  nothing is called; when the slot is populated the value returned is the one the hook
  returned, so false comes back only from a hook that reported success.
\<close>

theorem absent_slot_returns_true:
  assumes "ehooks_heap s ehooks = Some e"
    and "ptr e \<noteq> ehooks_default_extent_hooks cfg"
    and "hooks_heap s (ptr e) = Some t"
  shows
    "(\<exists>s'. ehooks_dalloc cfg tsdn ehooks addr sz committed arena_ind s =
            Inr ((case dalloc t of None \<Rightarrow> True
                  | Some f \<Rightarrow> fst (f (ptr e) addr sz committed arena_ind (world s))), s')
          \<and> (dalloc t = None \<longrightarrow> s' = s))
   \<and> (\<exists>s'. ehooks_commit cfg tsdn ehooks addr sz offset len arena_ind s =
            Inr ((case commit t of None \<Rightarrow> True
                  | Some f \<Rightarrow> fst (f (ptr e) addr sz offset len arena_ind (world s))), s')
          \<and> (commit t = None \<longrightarrow> s' = s))
   \<and> (\<exists>s'. ehooks_decommit cfg tsdn ehooks addr sz offset len arena_ind s =
            Inr ((case decommit t of None \<Rightarrow> True
                  | Some f \<Rightarrow> fst (f (ptr e) addr sz offset len arena_ind (world s))), s')
          \<and> (decommit t = None \<longrightarrow> s' = s))
   \<and> (\<exists>s'. ehooks_purge_lazy cfg tsdn ehooks addr sz offset len arena_ind s =
            Inr ((case purge_lazy t of None \<Rightarrow> True
                  | Some f \<Rightarrow> fst (f (ptr e) addr sz offset len arena_ind (world s))), s')
          \<and> (purge_lazy t = None \<longrightarrow> s' = s))
   \<and> (\<exists>s'. ehooks_purge_forced cfg tsdn ehooks addr sz offset len arena_ind s =
            Inr ((case purge_forced t of None \<Rightarrow> True
                  | Some f \<Rightarrow> fst (f (ptr e) addr sz offset len arena_ind (world s))), s')
          \<and> (purge_forced t = None \<longrightarrow> s' = s))
   \<and> (\<exists>s'. ehooks_split cfg tsdn ehooks addr sz size_a size_b committed arena_ind s =
            Inr ((case split t of None \<Rightarrow> True
                  | Some f \<Rightarrow> fst (f (ptr e) addr sz size_a size_b committed arena_ind (world s))), s')
          \<and> (split t = None \<longrightarrow> s' = s))
   \<and> (\<exists>s'. ehooks_merge cfg tsdn ehooks addr sz addr_b size_b committed arena_ind s =
            Inr ((case merge t of None \<Rightarrow> True
                  | Some f \<Rightarrow> fst (f (ptr e) addr sz addr_b size_b committed arena_ind (world s))), s')
          \<and> (merge t = None \<longrightarrow> s' = s))"
proof -
  have d: "\<exists>s'. ehooks_dalloc cfg tsdn ehooks addr sz committed arena_ind s =
            Inr ((case dalloc t of None \<Rightarrow> True
                  | Some f \<Rightarrow> fst (f (ptr e) addr sz committed arena_ind (world s))), s')
          \<and> (dalloc t = None \<longrightarrow> s' = s)"
    using assms by (cases "dalloc t") (simp_all add: ehooks_dalloc_slot)
  have c: "\<exists>s'. ehooks_commit cfg tsdn ehooks addr sz offset len arena_ind s =
            Inr ((case commit t of None \<Rightarrow> True
                  | Some f \<Rightarrow> fst (f (ptr e) addr sz offset len arena_ind (world s))), s')
          \<and> (commit t = None \<longrightarrow> s' = s)"
    using assms by (cases "commit t") (simp_all add: ehooks_commit_slot)
  have dc: "\<exists>s'. ehooks_decommit cfg tsdn ehooks addr sz offset len arena_ind s =
            Inr ((case decommit t of None \<Rightarrow> True
                  | Some f \<Rightarrow> fst (f (ptr e) addr sz offset len arena_ind (world s))), s')
          \<and> (decommit t = None \<longrightarrow> s' = s)"
    using assms by (cases "decommit t") (simp_all add: ehooks_decommit_slot)
  have pl: "\<exists>s'. ehooks_purge_lazy cfg tsdn ehooks addr sz offset len arena_ind s =
            Inr ((case purge_lazy t of None \<Rightarrow> True
                  | Some f \<Rightarrow> fst (f (ptr e) addr sz offset len arena_ind (world s))), s')
          \<and> (purge_lazy t = None \<longrightarrow> s' = s)"
    using assms by (cases "purge_lazy t") (simp_all add: ehooks_purge_lazy_slot)
  have pf: "\<exists>s'. ehooks_purge_forced cfg tsdn ehooks addr sz offset len arena_ind s =
            Inr ((case purge_forced t of None \<Rightarrow> True
                  | Some f \<Rightarrow> fst (f (ptr e) addr sz offset len arena_ind (world s))), s')
          \<and> (purge_forced t = None \<longrightarrow> s' = s)"
    using assms by (cases "purge_forced t") (simp_all add: ehooks_purge_forced_slot)
  have sp: "\<exists>s'. ehooks_split cfg tsdn ehooks addr sz size_a size_b committed arena_ind s =
            Inr ((case split t of None \<Rightarrow> True
                  | Some f \<Rightarrow> fst (f (ptr e) addr sz size_a size_b committed arena_ind (world s))), s')
          \<and> (split t = None \<longrightarrow> s' = s)"
    using assms by (cases "split t") (simp_all add: ehooks_split_slot)
  have mg: "\<exists>s'. ehooks_merge cfg tsdn ehooks addr sz addr_b size_b committed arena_ind s =
            Inr ((case merge t of None \<Rightarrow> True
                  | Some f \<Rightarrow> fst (f (ptr e) addr sz addr_b size_b committed arena_ind (world s))), s')
          \<and> (merge t = None \<longrightarrow> s' = s)"
    using assms by (cases "merge t") (simp_all add: ehooks_merge_slot)
  show ?thesis by (intro conjI d c dc pl pf sp mg)
qed

text \<open>
  The table with only alloc populated: all seven operations return true and change
  nothing. The fully populated table: dalloc returns the hook's false.
\<close>

theorem absent_slot_returns_true_witness:
  "ehooks_dalloc build_purge None 0x200 0x9000 4096 True 0 st0 = Inr (True, st0)
   \<and> ehooks_commit build_purge None 0x200 0x9000 4096 0 4096 0 st0 = Inr (True, st0)
   \<and> ehooks_decommit build_purge None 0x200 0x9000 4096 0 4096 0 st0 = Inr (True, st0)
   \<and> ehooks_purge_lazy build_purge None 0x200 0x9000 4096 0 4096 0 st0 = Inr (True, st0)
   \<and> ehooks_purge_forced build_purge None 0x200 0x9000 4096 0 4096 0 st0 = Inr (True, st0)
   \<and> ehooks_split build_purge None 0x200 0x9000 4096 1024 3072 True 0 st0 = Inr (True, st0)
   \<and> ehooks_merge build_purge None 0x200 0x9000 4096 0xA000 3072 True 0 st0 = Inr (True, st0)
   \<and> (\<exists>s'. ehooks_dalloc build_purge None 0x300 0x9000 4096 True 0 st0 = Inr (False, s'))"
  using absent_slot_returns_true [where s = st0 and ehooks = "0x200" and e = "\<lparr>ptr = 0x2000\<rparr>"
      and cfg = build_purge and t = hooks_only_alloc and tsdn = None and addr = "0x9000"
      and sz = 4096 and committed = True and arena_ind = 0 and offset = 0 and len = 4096
      and size_a = 1024 and size_b = 3072 and addr_b = "0xA000"]
    absent_slot_returns_true [where s = st0 and ehooks = "0x300" and e = "\<lparr>ptr = 0x3000\<rparr>"
      and cfg = build_purge and t = hooks_all and tsdn = None and addr = "0x9000"
      and sz = 4096 and committed = True and arena_ind = 0]
  by (simp add: st0_def build_purge_def hooks_only_alloc_def hooks_all_def)

section \<open>The default table\<close>

text \<open>
  C2, as the claim states it, fails in a build without the lazy (forced) purge capability:
  the handle holds the default table, whose purge slots are NULL in such a build, and
  \<open>ehooks_purge_lazy\<close> (\<open>ehooks_purge_forced\<close>) returns true with the state unchanged and
  the log empty, so no default implementation was called.
\<close>

theorem default_purge_without_capability_no_fast_path:
  "ehooks_are_default build_nopurge 0x100 st0 = Inr (True, st0)
   \<and> ehooks_purge_lazy build_nopurge None 0x100 0x9000 4096 0 4096 0 st0 = Inr (True, st0)
   \<and> ehooks_purge_forced build_nopurge None 0x100 0x9000 4096 0 4096 0 st0 = Inr (True, st0)
   \<and> trace st0 = []"
  using ehooks_purge_lazy_slot [where s = st0 and cfg = build_nopurge and tsdn = None
      and addr = "0x9000" and sz = 4096 and offset = 0 and len = 4096 and arena_ind = 0
      and ehooks = "0x100" and e = "\<lparr>ptr = 0x1000\<rparr>" and t = hooks_default_nopurge]
    ehooks_purge_forced_slot [where s = st0 and cfg = build_nopurge and tsdn = None
      and addr = "0x9000" and sz = 4096 and offset = 0 and len = 4096 and arena_ind = 0
      and ehooks = "0x100" and e = "\<lparr>ptr = 0x1000\<rparr>" and t = hooks_default_nopurge]
  by (simp add: exec_defs st0_handles st0_tables st0_fields build_fields hooks_default_nopurge_def)

text \<open>
  C2, amended. For a valid handle that holds the address of the default table,
  \<open>ehooks_are_default\<close> returns true and changes nothing, and alloc, dalloc, destroy, commit,
  decommit, split and merge, as well as purge_lazy in a build with the lazy purge
  capability and purge_forced in a build with the forced purge capability, return what
  the default implementation returns and leave the state \<open>after_default\<close>: the outside state
  is the one the default implementation left and the log gains one direct call, with no
  guard entry or exit and no call through a slot.
\<close>

theorem default_table_fast_path:
  assumes "ehooks_heap s ehooks = Some e" and "ptr e = ehooks_default_extent_hooks cfg"
  shows
    "ehooks_are_default cfg ehooks s = Inr (True, s)
   \<and> ehooks_alloc cfg tsdn ehooks new_addr sz alignment zero commit_flag arena_ind s =
       Inr (fst (ehooks_default_alloc_impl cfg tsdn new_addr sz alignment zero commit_flag
                   arena_ind (world s)),
            after_default Alloc
              (snd (ehooks_default_alloc_impl cfg tsdn new_addr sz alignment zero commit_flag
                      arena_ind (world s))) s)
   \<and> ehooks_dalloc cfg tsdn ehooks addr sz committed arena_ind s =
       Inr (fst (ehooks_default_dalloc_impl cfg addr sz (world s)),
            after_default Dalloc (snd (ehooks_default_dalloc_impl cfg addr sz (world s))) s)
   \<and> ehooks_destroy cfg tsdn ehooks addr sz committed arena_ind s =
       Inr ((), after_default Destroy (snd (ehooks_default_destroy_impl cfg addr sz (world s))) s)
   \<and> ehooks_commit cfg tsdn ehooks addr sz offset len arena_ind s =
       Inr (fst (ehooks_default_commit_impl cfg addr offset len (world s)),
            after_default Commit (snd (ehooks_default_commit_impl cfg addr offset len (world s))) s)
   \<and> ehooks_decommit cfg tsdn ehooks addr sz offset len arena_ind s =
       Inr (fst (ehooks_default_decommit_impl cfg addr offset len (world s)),
            after_default Decommit
              (snd (ehooks_default_decommit_impl cfg addr offset len (world s))) s)
   \<and> (pages_can_purge_lazy cfg \<longrightarrow>
       ehooks_purge_lazy cfg tsdn ehooks addr sz offset len arena_ind s =
         Inr (fst (ehooks_default_purge_lazy_impl cfg addr offset len (world s)),
              after_default Purge_lazy
                (snd (ehooks_default_purge_lazy_impl cfg addr offset len (world s))) s))
   \<and> (pages_can_purge_forced cfg \<longrightarrow>
       ehooks_purge_forced cfg tsdn ehooks addr sz offset len arena_ind s =
         Inr (fst (ehooks_default_purge_forced_impl cfg addr offset len (world s)),
              after_default Purge_forced
                (snd (ehooks_default_purge_forced_impl cfg addr offset len (world s))) s))
   \<and> ehooks_split cfg tsdn ehooks addr sz size_a size_b committed arena_ind s =
       Inr (fst (ehooks_default_split_impl cfg (world s)),
            after_default Split (snd (ehooks_default_split_impl cfg (world s))) s)
   \<and> ehooks_merge cfg tsdn ehooks addr sz addr_b size_b committed arena_ind s =
       Inr (fst (ehooks_default_merge_impl cfg addr addr_b (world s)),
            after_default Merge (snd (ehooks_default_merge_impl cfg addr addr_b (world s))) s)"
proof -
  have "ehooks_are_default cfg ehooks s = Inr (True, s)"
    using assms by (simp add: exec_defs)
  moreover note ehooks_alloc_default [OF assms] ehooks_dalloc_default [OF assms]
    ehooks_commit_default [OF assms] ehooks_decommit_default [OF assms]
    ehooks_split_default [OF assms] ehooks_merge_default [OF assms]
  moreover have "ehooks_destroy cfg tsdn ehooks addr sz committed arena_ind s =
       Inr ((), after_default Destroy (snd (ehooks_default_destroy_impl cfg addr sz (world s))) s)"
    by (simp add: ehooks_destroy_default [OF assms])
  moreover note ehooks_purge_lazy_default [OF assms] ehooks_purge_forced_default [OF assms]
  ultimately show ?thesis by simp
qed

text \<open>
  The handle at \<open>0x100\<close> in the build with both capabilities: alloc of 4096 bytes aligned
  to 4096 returns a non-null address and the commit flag as requested.
\<close>

theorem default_table_fast_path_witness:
  "ehooks_are_default build_purge 0x100 st0 = Inr (True, st0)
   \<and> ehooks_alloc build_purge None 0x100 0 4096 4096 False True 0 st0 =
       Inr ((0x7000, False, True), st0\<lparr>world := 1, trace := [Default_impl Alloc]\<rparr>)
   \<and> ehooks_purge_lazy build_purge None 0x100 0x7000 4096 0 4096 0 st0 =
       Inr (False, st0\<lparr>world := 1, trace := [Default_impl Purge_lazy]\<rparr>)
   \<and> ehooks_purge_forced build_purge None 0x100 0x7000 4096 0 4096 0 st0 =
       Inr (False, st0\<lparr>world := 1, trace := [Default_impl Purge_forced]\<rparr>)
   \<and> ehooks_split build_purge None 0x100 0x7000 4096 1024 3072 True 0 st0 =
       Inr (False, st0\<lparr>world := 1, trace := [Default_impl Split]\<rparr>)"
  using default_table_fast_path [where s = st0 and ehooks = "0x100" and e = "\<lparr>ptr = 0x1000\<rparr>"
      and cfg = build_purge and tsdn = None and new_addr = 0 and sz = 4096 and alignment = 4096
      and zero = False and commit_flag = True and arena_ind = 0 and addr = "0x7000"
      and offset = 0 and len = 4096 and size_a = 1024 and size_b = 3072 and committed = True]
  by (simp add: st0_handles st0_fields build_fields build_impls after_default_def)

section \<open>Purge without the capability\<close>

text \<open>
  C3, as the claim states it, fails: in the build without purge capabilities, on the
  fully populated custom table, \<open>ehooks_purge_lazy\<close> and \<open>ehooks_purge_forced\<close> enter the
  guard, call the hook, leave the guard and return the hook's false.
\<close>

theorem custom_purge_invoked_without_capability:
  "ehooks_purge_lazy build_nopurge (Some 0) 0x300 0x9000 4096 0 4096 0 st0 =
     Inr (False, st0\<lparr>world := 1,
            trace := [Reentrancy_enter 0, Custom_hook 0x3000 Purge_lazy, Reentrancy_exit 0]\<rparr>)
   \<and> ehooks_purge_forced build_nopurge (Some 0) 0x300 0x9000 4096 0 4096 0 st0 =
     Inr (False, st0\<lparr>world := 1,
            trace := [Reentrancy_enter 0, Custom_hook 0x3000 Purge_forced, Reentrancy_exit 0]\<rparr>)"
  using ehooks_purge_lazy_slot [where s = st0 and cfg = build_nopurge and tsdn = "Some 0"
      and addr = "0x9000" and sz = 4096 and offset = 0 and len = 4096 and arena_ind = 0
      and ehooks = "0x300" and e = "\<lparr>ptr = 0x3000\<rparr>" and t = hooks_all]
    ehooks_purge_forced_slot [where s = st0 and cfg = build_nopurge and tsdn = "Some 0"
      and addr = "0x9000" and sz = 4096 and offset = 0 and len = 4096 and arena_ind = 0
      and ehooks = "0x300" and e = "\<lparr>ptr = 0x3000\<rparr>" and t = hooks_all]
  by (simp add: st0_handles st0_tables st0_fields build_fields hooks_all_def after_defs)

text \<open>
  C3, amended. In a build without the lazy (forced) purge capability only the test for
  the default table is compiled out. For a valid handle on any table, the default one
  included, \<open>ehooks_purge_lazy\<close> (\<open>ehooks_purge_forced\<close>) returns true with the state
  unchanged when the slot is NULL, and otherwise calls the hook under the guard and
  returns its value.
\<close>

theorem purge_without_capability:
  assumes "ehooks_heap s ehooks = Some e" and "hooks_heap s (ptr e) = Some t"
  shows
    "(\<not> pages_can_purge_lazy cfg \<longrightarrow>
        ehooks_purge_lazy cfg tsdn ehooks addr sz offset len arena_ind s =
          (case purge_lazy t of
             None \<Rightarrow> Inr (True, s)
           | Some f \<Rightarrow>
               Inr (fst (f (ptr e) addr sz offset len arena_ind (world s)),
                    after_guarded tsdn (ptr e) Purge_lazy
                      (snd (f (ptr e) addr sz offset len arena_ind (world s))) s)))
   \<and> (\<not> pages_can_purge_forced cfg \<longrightarrow>
        ehooks_purge_forced cfg tsdn ehooks addr sz offset len arena_ind s =
          (case purge_forced t of
             None \<Rightarrow> Inr (True, s)
           | Some f \<Rightarrow>
               Inr (fst (f (ptr e) addr sz offset len arena_ind (world s)),
                    after_guarded tsdn (ptr e) Purge_forced
                      (snd (f (ptr e) addr sz offset len arena_ind (world s))) s)))"
  using assms by (simp add: ehooks_purge_lazy_slot ehooks_purge_forced_slot)

text \<open>
  The build without capabilities: on the default table with NULL purge slots both
  operations return true and change nothing; on the fully populated table both call the
  hook.
\<close>

theorem purge_without_capability_witness:
  "ehooks_purge_lazy build_nopurge None 0x100 0x9000 4096 0 4096 0 st0 = Inr (True, st0)
   \<and> ehooks_purge_forced build_nopurge None 0x100 0x9000 4096 0 4096 0 st0 = Inr (True, st0)
   \<and> ehooks_purge_lazy build_nopurge (Some 0) 0x300 0x9000 4096 0 4096 0 st0 =
       Inr (False, after_guarded (Some 0) 0x3000 Purge_lazy 1 st0)
   \<and> ehooks_purge_forced build_nopurge (Some 0) 0x300 0x9000 4096 0 4096 0 st0 =
       Inr (False, after_guarded (Some 0) 0x3000 Purge_forced 1 st0)"
  using purge_without_capability [where s = st0 and ehooks = "0x100" and e = "\<lparr>ptr = 0x1000\<rparr>"
      and t = hooks_default_nopurge and cfg = build_nopurge and tsdn = None and addr = "0x9000"
      and sz = 4096 and offset = 0 and len = 4096 and arena_ind = 0]
    purge_without_capability [where s = st0 and ehooks = "0x300" and e = "\<lparr>ptr = 0x3000\<rparr>"
      and t = hooks_all and cfg = build_nopurge and tsdn = "Some 0" and addr = "0x9000"
      and sz = 4096 and offset = 0 and len = 4096 and arena_ind = 0]
  by (simp add: st0_handles st0_tables st0_fields build_fields hooks_default_nopurge_def
      hooks_all_def)

section \<open>The predicates on split and merge\<close>

text \<open>
  C4, as the claim states it, fails: on the fully populated custom table the split hook
  is present, so \<open>ehooks_split_will_fail\<close> returns false, yet \<open>ehooks_split\<close> returns true,
  the failure the hook itself reported.
\<close>

theorem split_fails_though_predicate_false:
  "ehooks_split_will_fail 0x300 st0 = Inr (False, st0)
   \<and> ehooks_split build_purge (Some 0) 0x300 0x9000 4096 1024 3072 True 0 st0 =
       Inr (True, st0\<lparr>world := 1,
              trace := [Reentrancy_enter 0, Custom_hook 0x3000 Split, Reentrancy_exit 0]\<rparr>)"
  using ehooks_split_slot [where s = st0 and cfg = build_purge and tsdn = "Some 0"
      and addr = "0x9000" and sz = 4096 and size_a = 1024 and size_b = 3072 and committed = True
      and arena_ind = 0
      and ehooks = "0x300" and e = "\<lparr>ptr = 0x3000\<rparr>" and t = hooks_all]
  by (simp add: ehooks_split_will_fail_def exec_defs st0_handles st0_tables st0_fields
      build_fields hooks_all_def after_defs)

text \<open>
  C4, amended. For a valid handle on a table, \<open>ehooks_split_will_fail\<close> and
  \<open>ehooks_merge_will_fail\<close> return whether the split (merge) slot of that table is NULL and
  leave the state unchanged. When the table is not the default one and the predicate
  returns true, \<open>ehooks_split\<close> (\<open>ehooks_merge\<close>) returns true with the state unchanged, so
  without the guard. The converse is dropped.
\<close>

theorem will_fail_implies_failure:
  assumes "ehooks_heap s ehooks = Some e" and "hooks_heap s (ptr e) = Some t"
  shows
    "ehooks_split_will_fail ehooks s = Inr (split t = None, s)
   \<and> ehooks_merge_will_fail ehooks s = Inr (merge t = None, s)
   \<and> (ptr e \<noteq> ehooks_default_extent_hooks cfg \<longrightarrow>
        ehooks_split_will_fail ehooks s = Inr (True, s) \<longrightarrow>
        ehooks_split cfg tsdn ehooks addr sz size_a size_b committed arena_ind s = Inr (True, s))
   \<and> (ptr e \<noteq> ehooks_default_extent_hooks cfg \<longrightarrow>
        ehooks_merge_will_fail ehooks s = Inr (True, s) \<longrightarrow>
        ehooks_merge cfg tsdn ehooks addr sz addr_b size_b committed arena_ind s = Inr (True, s))"
proof -
  have sp: "ehooks_split_will_fail ehooks s = Inr (split t = None, s)"
    using assms by (simp add: ehooks_split_will_fail_def exec_defs)
  have mg: "ehooks_merge_will_fail ehooks s = Inr (merge t = None, s)"
    using assms by (simp add: ehooks_merge_will_fail_def exec_defs)
  show ?thesis
    using assms by (simp add: sp mg ehooks_split_slot ehooks_merge_slot)
qed

text \<open>The table with only alloc populated: both predicates and both operations return true.\<close>

theorem will_fail_implies_failure_witness:
  "ehooks_split_will_fail 0x200 st0 = Inr (True, st0)
   \<and> ehooks_merge_will_fail 0x200 st0 = Inr (True, st0)
   \<and> ehooks_split build_purge None 0x200 0x9000 4096 1024 3072 True 0 st0 = Inr (True, st0)
   \<and> ehooks_merge build_purge None 0x200 0x9000 4096 0xA000 3072 True 0 st0 = Inr (True, st0)"
  using will_fail_implies_failure [where s = st0 and ehooks = "0x200" and e = "\<lparr>ptr = 0x2000\<rparr>"
      and t = hooks_only_alloc and cfg = build_purge and tsdn = None and addr = "0x9000"
      and sz = 4096 and size_a = 1024 and size_b = 3072 and committed = True and arena_ind = 0
      and addr_b = "0xA000"]
  by (simp add: st0_handles st0_tables build_fields hooks_only_alloc_def)

section \<open>Sequences of dispatch calls\<close>

text \<open>
  A dispatch call that returns has left the state as it was, or as a direct default call
  leaves it, or as a guarded call through a slot leaves it. The properties of call
  sequences follow by induction on the sequence.
\<close>

lemma bind_return_Inr:
  assumes "bind m (\<lambda>x. return (k x)) s = Inr (r, s')"
  shows "\<exists>x. m s = Inr (x, s') \<and> r = k x"
  using assms by (auto simp add: bind_def return_def split: sum.splits)

lemma ehooks_dispatch_outcome:
  assumes "ehooks_dispatch cfg tsdn ehooks c s = Inr (r, s')"
  shows "s' = s \<or> (\<exists>sl w. s' = after_default sl w s)
         \<or> (\<exists>p sl w. s' = after_guarded tsdn p sl w s)"
proof (cases c)
  case (Call_alloc new_addr sz alignment zero commit_flag arena_ind)
  with assms bind_return_Inr obtain x where
    "ehooks_alloc cfg tsdn ehooks new_addr sz alignment zero commit_flag arena_ind s = Inr (x, s')"
    by fastforce
  from ehooks_alloc_outcome [OF this] show ?thesis by blast
next
  case (Call_dalloc addr sz committed arena_ind)
  with assms bind_return_Inr obtain x where
    "ehooks_dalloc cfg tsdn ehooks addr sz committed arena_ind s = Inr (x, s')"
    by fastforce
  from ehooks_dalloc_outcome [OF this] show ?thesis by blast
next
  case (Call_destroy addr sz committed arena_ind)
  with assms have "ehooks_destroy cfg tsdn ehooks addr sz committed arena_ind s = Inr ((), s')"
    by (auto simp add: bind_def return_def split: sum.splits)
  from ehooks_destroy_outcome [OF this] show ?thesis by blast
next
  case (Call_commit addr sz offset len arena_ind)
  with assms bind_return_Inr obtain x where
    "ehooks_commit cfg tsdn ehooks addr sz offset len arena_ind s = Inr (x, s')"
    by fastforce
  from ehooks_commit_outcome [OF this] show ?thesis by blast
next
  case (Call_decommit addr sz offset len arena_ind)
  with assms bind_return_Inr obtain x where
    "ehooks_decommit cfg tsdn ehooks addr sz offset len arena_ind s = Inr (x, s')"
    by fastforce
  from ehooks_decommit_outcome [OF this] show ?thesis by blast
next
  case (Call_purge_lazy addr sz offset len arena_ind)
  with assms bind_return_Inr obtain x where
    "ehooks_purge_lazy cfg tsdn ehooks addr sz offset len arena_ind s = Inr (x, s')"
    by fastforce
  from ehooks_purge_lazy_outcome [OF this] show ?thesis by blast
next
  case (Call_purge_forced addr sz offset len arena_ind)
  with assms bind_return_Inr obtain x where
    "ehooks_purge_forced cfg tsdn ehooks addr sz offset len arena_ind s = Inr (x, s')"
    by fastforce
  from ehooks_purge_forced_outcome [OF this] show ?thesis by blast
next
  case (Call_split addr sz size_a size_b committed arena_ind)
  with assms bind_return_Inr obtain x where
    "ehooks_split cfg tsdn ehooks addr sz size_a size_b committed arena_ind s = Inr (x, s')"
    by fastforce
  from ehooks_split_outcome [OF this] show ?thesis by blast
next
  case (Call_merge addr_a size_a addr_b size_b committed arena_ind)
  with assms bind_return_Inr obtain x where
    "ehooks_merge cfg tsdn ehooks addr_a size_a addr_b size_b committed arena_ind s = Inr (x, s')"
    by fastforce
  from ehooks_merge_outcome [OF this] show ?thesis by blast
qed

lemma guard_scan_append:
  "guard_scan (xs @ ys) st =
     (case guard_scan xs st of None \<Rightarrow> None | Some st' \<Rightarrow> guard_scan ys st')"
  by (induction xs st rule: guard_scan.induct) (simp_all split: list.splits)

lemma ehooks_dispatch_level:
  assumes "ehooks_dispatch cfg tsdn ehooks c s = Inr (r, s')"
  shows "reentrancy_level s' = reentrancy_level s"
  using ehooks_dispatch_outcome [OF assms] by (auto simp add: after_defs)

lemma ehooks_dispatch_heap:
  assumes "ehooks_dispatch cfg tsdn ehooks c s = Inr (r, s')"
  shows "ehooks_heap s' = ehooks_heap s"
  using ehooks_dispatch_outcome [OF assms] by (auto simp add: after_defs)

lemma ehooks_dispatch_trace:
  assumes "ehooks_dispatch cfg tsdn ehooks c s = Inr (r, s')"
  shows "trace s' = trace s \<or> (\<exists>sl. trace s' = trace s @ [Default_impl sl])
     \<or> (\<exists>p sl. trace s' = trace s @ [Reentrancy_enter (guard_tsd tsdn s), Custom_hook p sl,
                                     Reentrancy_exit (guard_tsd tsdn s)])"
  using ehooks_dispatch_outcome [OF assms] by (auto simp add: after_default_def after_guarded_def)

lemma ehooks_run_balanced:
  "ehooks_run cfg cs s = Inr (rs, s') \<Longrightarrow>
     reentrancy_level s' = reentrancy_level s
     \<and> (\<exists>tr. trace s' = trace s @ tr \<and> guard_scan tr [] = Some [])"
proof (induction cs arbitrary: s rs)
  case Nil
  then show ?case by (simp add: return_def)
next
  case (Cons call cs)
  obtain tsdn ehooks c where call: "call = (tsdn, ehooks, c)"
    by (cases call) auto
  from Cons.prems call obtain r s1 rs1 where
    step: "ehooks_dispatch cfg tsdn ehooks c s = Inr (r, s1)" and
    rest: "ehooks_run cfg cs s1 = Inr (rs1, s')"
    by (auto simp add: bind_def return_def split: sum.splits)
  from Cons.IH [OF rest] obtain tr where
    lv: "reentrancy_level s' = reentrancy_level s1" and
    tr: "trace s' = trace s1 @ tr" and bal: "guard_scan tr [] = Some []"
    by blast
  from ehooks_dispatch_trace [OF step] obtain tr1 where
    tr1: "trace s1 = trace s @ tr1" and bal1: "guard_scan tr1 [] = Some []"
    by auto
  have "trace s' = trace s @ (tr1 @ tr)"
    using tr tr1 by simp
  moreover have "guard_scan (tr1 @ tr) [] = Some []"
    using bal bal1 by (simp add: guard_scan_append)
  moreover have "reentrancy_level s' = reentrancy_level s"
    using lv ehooks_dispatch_level [OF step] by simp
  ultimately show ?case by blast
qed

lemmas op_defs = ehooks_alloc_def ehooks_dalloc_def ehooks_destroy_def ehooks_commit_def
  ehooks_decommit_def ehooks_purge_lazy_def ehooks_purge_forced_def ehooks_split_def
  ehooks_merge_def

lemma run_example:
  "\<exists>rs s'. ehooks_run build_purge
       [(None, 0x300, Call_alloc 0 4096 4096 False True 0),
        (Some 0, 0x200, Call_dalloc 0xA000 4096 True 0),
        (None, 0x100, Call_commit 0xA000 4096 0 4096 0),
        (Some 0, 0x300, Call_split 0xA000 4096 1024 3072 True 0)] st0 = Inr (rs, s')
     \<and> rs = [Ret_alloc (0xA000, False, True), Ret_bool True, Ret_bool False, Ret_bool True]
     \<and> trace s' = [Reentrancy_enter 0, Custom_hook 0x3000 Alloc, Reentrancy_exit 0,
          Default_impl Commit, Reentrancy_enter 0, Custom_hook 0x3000 Split, Reentrancy_exit 0]"
  by (simp add: op_defs exec_defs st0_def build_purge_def hooks_all_def hooks_only_alloc_def)

lemma dispatch_example:
  "ehooks_dispatch build_purge None 0x300 (Call_alloc 0 4096 4096 False True 0) st0 =
     Inr (Ret_alloc (0xA000, False, True), after_guarded None 0x3000 Alloc 1 st0)"
  using ehooks_alloc_slot [where s = st0 and cfg = build_purge and tsdn = None
      and ehooks = "0x300" and e = "\<lparr>ptr = 0x3000\<rparr>" and t = hooks_all and new_addr = 0
      and sz = 4096 and alignment = 4096 and zero = False and commit_flag = True
      and arena_ind = 0]
  by (simp add: bind_def return_def st0_handles st0_tables st0_fields build_fields hooks_all_def)

section \<open>Guard balance\<close>

text \<open>
  C5. A dispatch call that returns leaves the reentrancy level of every thread context as
  it was, and what it appends to the log is nothing, or one direct default call, or one
  guard entry, one call through a slot and one guard exit on the same thread context, in
  this order: every entry is followed by exactly one exit before the call returns. A
  sequence of dispatch calls that returns leaves every reentrancy level as it was, and the
  log it appends is balanced.
\<close>

theorem guard_balance:
  "(ehooks_dispatch cfg tsdn ehooks c s = Inr (r, s1) \<longrightarrow>
      reentrancy_level s1 = reentrancy_level s
      \<and> (trace s1 = trace s
         \<or> (\<exists>sl. trace s1 = trace s @ [Default_impl sl])
         \<or> (\<exists>p sl. trace s1 = trace s @ [Reentrancy_enter (guard_tsd tsdn s), Custom_hook p sl,
                                         Reentrancy_exit (guard_tsd tsdn s)])))
   \<and> (ehooks_run cfg cs s = Inr (rs, s2) \<longrightarrow>
      reentrancy_level s2 = reentrancy_level s
      \<and> (\<exists>tr. trace s2 = trace s @ tr \<and> guard_scan tr [] = Some []))"
  using ehooks_dispatch_level ehooks_dispatch_trace ehooks_run_balanced by blast

text \<open>
  One alloc through the fully populated table, and a sequence of four calls over three
  handles, two of them guarded.
\<close>

theorem guard_balance_witness:
  "reentrancy_level (after_guarded None 0x3000 Alloc 1 st0) = reentrancy_level st0
   \<and> trace (after_guarded None 0x3000 Alloc 1 st0) =
       [Reentrancy_enter 0, Custom_hook 0x3000 Alloc, Reentrancy_exit 0]
   \<and> (\<exists>rs s'. ehooks_run build_purge
         [(None, 0x300, Call_alloc 0 4096 4096 False True 0),
          (Some 0, 0x200, Call_dalloc 0xA000 4096 True 0),
          (None, 0x100, Call_commit 0xA000 4096 0 4096 0),
          (Some 0, 0x300, Call_split 0xA000 4096 1024 3072 True 0)] st0 = Inr (rs, s')
        \<and> rs = [Ret_alloc (0xA000, False, True), Ret_bool True, Ret_bool False, Ret_bool True]
        \<and> trace s' = [Reentrancy_enter 0, Custom_hook 0x3000 Alloc, Reentrancy_exit 0,
             Default_impl Commit, Reentrancy_enter 0, Custom_hook 0x3000 Split, Reentrancy_exit 0]
        \<and> reentrancy_level s' = reentrancy_level st0)"
proof -
  from run_example obtain rs s' where
    run: "ehooks_run build_purge
       [(None, 0x300, Call_alloc 0 4096 4096 False True 0),
        (Some 0, 0x200, Call_dalloc 0xA000 4096 True 0),
        (None, 0x100, Call_commit 0xA000 4096 0 4096 0),
        (Some 0, 0x300, Call_split 0xA000 4096 1024 3072 True 0)] st0 = Inr (rs, s')" and
    rs: "rs = [Ret_alloc (0xA000, False, True), Ret_bool True, Ret_bool False, Ret_bool True]" and
    tr: "trace s' = [Reentrancy_enter 0, Custom_hook 0x3000 Alloc, Reentrancy_exit 0,
          Default_impl Commit, Reentrancy_enter 0, Custom_hook 0x3000 Split, Reentrancy_exit 0]"
    by blast
  note gb = guard_balance [where cfg = build_purge and tsdn = None and ehooks = "0x300"
      and c = "Call_alloc 0 4096 4096 False True 0" and s = st0
      and r = "Ret_alloc (0xA000, False, True)" and ?s1.0 = "after_guarded None 0x3000 Alloc 1 st0"
      and cs = "[(None, 0x300, Call_alloc 0 4096 4096 False True 0),
        (Some 0, 0x200, Call_dalloc 0xA000 4096 True 0),
        (None, 0x100, Call_commit 0xA000 4096 0 4096 0),
        (Some 0, 0x300, Call_split 0xA000 4096 1024 3072 True 0)]"
      and rs = rs and ?s2.0 = s']
  from gb dispatch_example have one: "reentrancy_level (after_guarded None 0x3000 Alloc 1 st0) = reentrancy_level st0"
    by blast
  from gb run have many: "reentrancy_level s' = reentrancy_level st0"
    by blast
  have "trace (after_guarded None 0x3000 Alloc 1 st0) =
       [Reentrancy_enter 0, Custom_hook 0x3000 Alloc, Reentrancy_exit 0]"
    by (simp add: after_defs st0_fields)
  with one many run rs tr show ?thesis by blast
qed

section \<open>The handle is only read\<close>

text \<open>
  C7. A dispatch call that returns leaves the store of handles as it was; so do
  \<open>ehooks_are_default\<close>, \<open>ehooks_split_will_fail\<close>, \<open>ehooks_merge_will_fail\<close> and
  \<open>ehooks_get_extent_hooks_ptr\<close>, which leave the whole state as it was. The two writers
  are \<open>ehooks_set_extent_hooks_ptr\<close> and \<open>ehooks_init\<close>: after either, the handle holds the
  reference given.
\<close>

theorem dispatch_preserves_handle:
  "(ehooks_dispatch cfg tsdn ehooks c s = Inr (r, s1) \<longrightarrow> ehooks_heap s1 = ehooks_heap s)
   \<and> (ehooks_are_default cfg ehooks s = Inr (b1, s2) \<longrightarrow> s2 = s)
   \<and> (ehooks_split_will_fail ehooks s = Inr (b2, s3) \<longrightarrow> s3 = s)
   \<and> (ehooks_merge_will_fail ehooks s = Inr (b3, s4) \<longrightarrow> s4 = s)
   \<and> (ehooks_get_extent_hooks_ptr ehooks s = Inr (p, s5) \<longrightarrow> s5 = s)
   \<and> (ehooks_heap s ehooks \<noteq> None \<longrightarrow>
        (\<exists>s6. ehooks_set_extent_hooks_ptr ehooks q s = Inr ((), s6)
              \<and> ehooks_get_extent_hooks_ptr ehooks s6 = Inr (q, s6)))
   \<and> (\<exists>s7. ehooks_init ehooks q s = Inr ((), s7)
            \<and> ehooks_get_extent_hooks_ptr ehooks s7 = Inr (q, s7))"
proof -
  have "ehooks_dispatch cfg tsdn ehooks c s = Inr (r, s1) \<longrightarrow> ehooks_heap s1 = ehooks_heap s"
    using ehooks_dispatch_heap by blast
  moreover have "ehooks_are_default cfg ehooks s = Inr (b1, s2) \<longrightarrow> s2 = s"
    by (auto simp add: exec_defs split: option.splits)
  moreover have "ehooks_split_will_fail ehooks s = Inr (b2, s3) \<longrightarrow> s3 = s"
    by (auto simp add: ehooks_split_will_fail_def exec_defs split: option.splits)
  moreover have "ehooks_merge_will_fail ehooks s = Inr (b3, s4) \<longrightarrow> s4 = s"
    by (auto simp add: ehooks_merge_will_fail_def exec_defs split: option.splits)
  moreover have "ehooks_get_extent_hooks_ptr ehooks s = Inr (p, s5) \<longrightarrow> s5 = s"
    by (auto simp add: exec_defs split: option.splits)
  moreover have "ehooks_heap s ehooks \<noteq> None \<longrightarrow>
        (\<exists>s6. ehooks_set_extent_hooks_ptr ehooks q s = Inr ((), s6)
              \<and> ehooks_get_extent_hooks_ptr ehooks s6 = Inr (q, s6))"
    by (auto simp add: ehooks_set_extent_hooks_ptr_def ehooks_get_extent_hooks_ptr_def)
  moreover have "\<exists>s7. ehooks_init ehooks q s = Inr ((), s7)
            \<and> ehooks_get_extent_hooks_ptr ehooks s7 = Inr (q, s7)"
    by (simp add: ehooks_init_def ehooks_get_extent_hooks_ptr_def)
  ultimately show ?thesis by blast
qed

text \<open>The handle at \<open>0x300\<close>: an alloc, the three predicates, a load, and an install.\<close>

theorem dispatch_preserves_handle_witness:
  "ehooks_heap (after_guarded None 0x3000 Alloc 1 st0) = ehooks_heap st0
   \<and> ehooks_are_default build_purge 0x300 st0 = Inr (False, st0)
   \<and> ehooks_split_will_fail 0x300 st0 = Inr (False, st0)
   \<and> ehooks_merge_will_fail 0x300 st0 = Inr (False, st0)
   \<and> ehooks_get_extent_hooks_ptr 0x300 st0 = Inr (0x3000, st0)
   \<and> (\<exists>s6. ehooks_set_extent_hooks_ptr 0x300 0x1000 st0 = Inr ((), s6)
          \<and> ehooks_get_extent_hooks_ptr 0x300 s6 = Inr (0x1000, s6))"
  using dispatch_preserves_handle [where cfg = build_purge and tsdn = None and ehooks = "0x300"
      and c = "Call_alloc 0 4096 4096 False True 0" and s = st0
      and r = "Ret_alloc (0xA000, False, True)" and ?s1.0 = "after_guarded None 0x3000 Alloc 1 st0"
      and ?b1.0 = False and ?s2.0 = st0 and ?b2.0 = False and ?s3.0 = st0
      and ?b3.0 = False and ?s4.0 = st0 and p = "0x3000" and ?s5.0 = st0 and q = "0x1000"]
    dispatch_example
  by (simp add: ehooks_split_will_fail_def ehooks_merge_will_fail_def exec_defs st0_handles
      st0_tables build_fields hooks_all_def)

section \<open>Destroy\<close>

text \<open>
  C8. For a valid handle on a table other than the default one, \<open>ehooks_destroy\<close> with a
  NULL destroy slot returns with the whole state as it was: no hook is called and the
  guard is not engaged. With a destroy hook present it returns no value either, and the
  state it leaves depends on the hook's effect on the outside state only, not on the
  boolean the hook returned.
\<close>

theorem destroy_absent_is_noop:
  assumes "ehooks_heap s ehooks = Some e"
    and "ptr e \<noteq> ehooks_default_extent_hooks cfg"
    and "hooks_heap s (ptr e) = Some t"
  shows
    "(destroy t = None \<longrightarrow>
        ehooks_destroy cfg tsdn ehooks addr sz committed arena_ind s = Inr ((), s))
   \<and> (\<forall>f. destroy t = Some f \<longrightarrow>
        ehooks_destroy cfg tsdn ehooks addr sz committed arena_ind s =
          Inr ((), after_guarded tsdn (ptr e) Destroy
                     (snd (f (ptr e) addr sz committed arena_ind (world s))) s))"
  using assms by (simp add: ehooks_destroy_slot)

text \<open>
  The table with only alloc: nothing happens. The fully populated table, whose destroy
  hook returns true: the hook runs under the guard and its result is dropped.
\<close>

theorem destroy_absent_is_noop_witness:
  "ehooks_destroy build_purge None 0x200 0x9000 4096 True 0 st0 = Inr ((), st0)
   \<and> ehooks_destroy build_purge (Some 0) 0x300 0x9000 4096 True 0 st0 =
       Inr ((), st0\<lparr>world := 1,
              trace := [Reentrancy_enter 0, Custom_hook 0x3000 Destroy, Reentrancy_exit 0]\<rparr>)"
  using destroy_absent_is_noop [where s = st0 and ehooks = "0x200" and e = "\<lparr>ptr = 0x2000\<rparr>"
      and cfg = build_purge and t = hooks_only_alloc and tsdn = None and addr = "0x9000"
      and sz = 4096 and committed = True and arena_ind = 0]
    destroy_absent_is_noop [where s = st0 and ehooks = "0x300" and e = "\<lparr>ptr = 0x3000\<rparr>"
      and cfg = build_purge and t = hooks_all and tsdn = "Some 0" and addr = "0x9000"
      and sz = 4096 and committed = True and arena_ind = 0]
  by (simp add: st0_handles st0_tables st0_fields build_fields hooks_only_alloc_def hooks_all_def
      after_defs)

section \<open>The guard on a null thread-context token\<close>

text \<open>
  C9. With a null token, \<open>ehooks_pre_reentrancy\<close> and \<open>ehooks_post_reentrancy\<close> return: they
  run \<open>tsd_fetch\<close>, which establishes the context of the calling thread, and apply the raw
  enter (exit) to that context. With any token they return and never reach \<open>tsdn_tsd\<close> on
  a null token.
\<close>

theorem reentrancy_null_tsdn:
  "ehooks_pre_reentrancy None s =
     Inr ((), s\<lparr>tsd_booted := (tsd_booted s)(self_thread s := True),
               reentrancy_level :=
                 (reentrancy_level s)(self_thread s := reentrancy_level s (self_thread s) + 1),
               trace := trace s @ [Reentrancy_enter (self_thread s)]\<rparr>)
   \<and> ehooks_post_reentrancy None s =
     Inr ((), s\<lparr>tsd_booted := (tsd_booted s)(self_thread s := True),
               reentrancy_level :=
                 (reentrancy_level s)(self_thread s := reentrancy_level s (self_thread s) - 1),
               trace := trace s @ [Reentrancy_exit (self_thread s)]\<rparr>)
   \<and> ehooks_pre_reentrancy None s = bind tsd_fetch tsd_pre_reentrancy_raw s
   \<and> ehooks_post_reentrancy None s = bind tsd_fetch tsd_post_reentrancy_raw s
   \<and> (\<exists>s'. ehooks_pre_reentrancy tsdn s = Inr ((), s'))
   \<and> (\<exists>s'. ehooks_post_reentrancy tsdn s = Inr ((), s'))"
proof -
  have "\<exists>s'. ehooks_pre_reentrancy tsdn s = Inr ((), s')"
    by (cases tsdn) (simp_all add: exec_defs)
  moreover have "\<exists>s'. ehooks_post_reentrancy tsdn s = Inr ((), s')"
    by (cases tsdn) (simp_all add: exec_defs)
  ultimately show ?thesis
    by (simp add: exec_defs)
qed

section \<open>Alloc has no fallback\<close>

text \<open>
  C10. For a valid handle on a table other than the default one, \<open>ehooks_alloc\<close> with a
  NULL alloc slot calls the null pointer, which is undefined behaviour: no value is
  returned in its place. With an alloc hook present it calls the hook under the guard and
  returns its result.
\<close>

theorem alloc_has_no_fallback:
  assumes "ehooks_heap s ehooks = Some e"
    and "ptr e \<noteq> ehooks_default_extent_hooks cfg"
    and "hooks_heap s (ptr e) = Some t"
  shows
    "(alloc t = None \<longrightarrow>
        ehooks_alloc cfg tsdn ehooks new_addr sz alignment zero commit_flag arena_ind s =
          Inl Null_call)
   \<and> (\<forall>f. alloc t = Some f \<longrightarrow>
        ehooks_alloc cfg tsdn ehooks new_addr sz alignment zero commit_flag arena_ind s =
          Inr (fst (f (ptr e) new_addr sz alignment zero commit_flag arena_ind (world s)),
               after_guarded tsdn (ptr e) Alloc
                 (snd (f (ptr e) new_addr sz alignment zero commit_flag arena_ind (world s))) s))"
  using assms by (simp add: ehooks_alloc_slot)

text \<open>The empty table: alloc is a null call. The table with only alloc: a guarded call.\<close>

theorem alloc_has_no_fallback_witness:
  "ehooks_alloc build_purge None 0x400 0 4096 4096 False True 0 st0 = Inl Null_call
   \<and> ehooks_alloc build_purge (Some 0) 0x200 0 4096 4096 False True 0 st0 =
       Inr ((0x9000, False, True),
            st0\<lparr>world := 1,
               trace := [Reentrancy_enter 0, Custom_hook 0x2000 Alloc, Reentrancy_exit 0]\<rparr>)"
  using alloc_has_no_fallback [where s = st0 and ehooks = "0x400" and e = "\<lparr>ptr = 0x4000\<rparr>"
      and cfg = build_purge and t = hooks_empty and tsdn = None and new_addr = 0 and sz = 4096
      and alignment = 4096 and zero = False and commit_flag = True and arena_ind = 0]
    alloc_has_no_fallback [where s = st0 and ehooks = "0x200" and e = "\<lparr>ptr = 0x2000\<rparr>"
      and cfg = build_purge and t = hooks_only_alloc and tsdn = "Some 0" and new_addr = 0
      and sz = 4096 and alignment = 4096 and zero = False and commit_flag = True
      and arena_ind = 0]
  by (simp add: st0_handles st0_tables st0_fields build_fields hooks_only_alloc_def
      hooks_empty_def after_defs)

end
